theory Spec2Isabelle
  imports Complex_Main "HOL-Library.Sublist" "HOL-Library.Word"
begin

section \<open>Python values used by app.py\<close>

text \<open>
  A Python \<open>str\<close> is a sequence of Unicode code points, so it is modelled as a list of
  natural numbers (one per code point); \<open>len\<close> is \<open>length\<close>. The Cyrillic and Kazakh
  literals of the source are written as their code points. Literal dictionary keys and
  step identifiers are plain ASCII and are kept as HOL strings.
\<close>

type_synonym ustr = "nat list"

definition ascii :: "string \<Rightarrow> ustr" where
  "ascii s = map of_char s"

datatype py_error = ValueError | TypeError | OverflowError

text \<open>
  A Python \<open>float\<close>: \<open>Fin q\<close> stands for the double nearest to the rational \<open>q\<close>
  (rounding inside the finite range is not modelled; both zeros are \<open>Fin 0\<close>). A float
  that is given, as the cell of a float column, is \<open>Fin q\<close> for the double \<open>q\<close>.
\<close>

datatype pyfloat = Fin rat | PInf | NInf | NaN

datatype pyval = PInt int | PFloat rat | PStr ustr

type_synonym pydict = "string \<rightharpoonup> pyval"

subsection \<open>Character classes of \<open>str\<close> (Unicode 14, as in CPython 3.11)\<close>

fun in_ranges :: "nat \<Rightarrow> (nat \<times> nat) list \<Rightarrow> bool" where
  "in_ranges c [] = False"
| "in_ranges c ((a, b) # rs) = ((a \<le> c \<and> c \<le> b) \<or> in_ranges c rs)"

definition space_ranges :: "(nat \<times> nat) list" where
  "space_ranges =
    [(0x9, 0xD), (0x1C, 0x20), (0x85, 0x85), (0xA0, 0xA0), (0x1680, 0x1680), (0x2000, 0x200A),
     (0x2028, 0x2029), (0x202F, 0x202F), (0x205F, 0x205F), (0x3000, 0x3000)]"

definition decimal_ranges :: "(nat \<times> nat) list" where
  "decimal_ranges =
    [(0x30, 0x39), (0x660, 0x669), (0x6F0, 0x6F9), (0x7C0, 0x7C9), (0x966, 0x96F), (0x9E6,
     0x9EF), (0xA66, 0xA6F), (0xAE6, 0xAEF), (0xB66, 0xB6F), (0xBE6, 0xBEF), (0xC66, 0xC6F),
     (0xCE6, 0xCEF), (0xD66, 0xD6F), (0xDE6, 0xDEF), (0xE50, 0xE59), (0xED0, 0xED9), (0xF20,
     0xF29), (0x1040, 0x1049), (0x1090, 0x1099), (0x17E0, 0x17E9), (0x1810, 0x1819), (0x1946,
     0x194F), (0x19D0, 0x19D9), (0x1A80, 0x1A89), (0x1A90, 0x1A99), (0x1B50, 0x1B59), (0x1BB0,
     0x1BB9), (0x1C40, 0x1C49), (0x1C50, 0x1C59), (0xA620, 0xA629), (0xA8D0, 0xA8D9), (0xA900,
     0xA909), (0xA9D0, 0xA9D9), (0xA9F0, 0xA9F9), (0xAA50, 0xAA59), (0xABF0, 0xABF9), (0xFF10,
     0xFF19), (0x104A0, 0x104A9), (0x10D30, 0x10D39), (0x11066, 0x1106F), (0x110F0, 0x110F9),
     (0x11136, 0x1113F), (0x111D0, 0x111D9), (0x112F0, 0x112F9), (0x11450, 0x11459), (0x114D0,
     0x114D9), (0x11650, 0x11659), (0x116C0, 0x116C9), (0x11730, 0x11739), (0x118E0, 0x118E9),
     (0x11950, 0x11959), (0x11C50, 0x11C59), (0x11D50, 0x11D59), (0x11DA0, 0x11DA9), (0x16A60,
     0x16A69), (0x16AC0, 0x16AC9), (0x16B50, 0x16B59), (0x1D7CE, 0x1D7FF), (0x1E140, 0x1E149),
     (0x1E2F0, 0x1E2F9), (0x1E950, 0x1E959), (0x1FBF0, 0x1FBF9)]"

definition other_digit_ranges :: "(nat \<times> nat) list" where
  "other_digit_ranges =
    [(0xB2, 0xB3), (0xB9, 0xB9), (0x1369, 0x1371), (0x19DA, 0x19DA), (0x2070, 0x2070), (0x2074,
     0x2079), (0x2080, 0x2089), (0x2460, 0x2468), (0x2474, 0x247C), (0x2488, 0x2490), (0x24EA,
     0x24EA), (0x24F5, 0x24FD), (0x24FF, 0x24FF), (0x2776, 0x277E), (0x2780, 0x2788), (0x278A,
     0x2792), (0x10A40, 0x10A43), (0x10E60, 0x10E68), (0x11052, 0x1105A), (0x1F100, 0x1F10A)]"

definition lower_table :: "(nat \<times> nat \<times> nat \<times> int) list" where
  "lower_table =
    [(0x41, 0x5A, 1, 32), (0xC0, 0xD6, 1, 32), (0xD8, 0xDE, 1, 32), (0x100, 0x12E, 2, 1), (0x132,
     0x136, 2, 1), (0x139, 0x147, 2, 1), (0x14A, 0x176, 2, 1), (0x178, 0x178, 1, -121), (0x179,
     0x17D, 2, 1), (0x181, 0x181, 1, 210), (0x182, 0x184, 2, 1), (0x186, 0x186, 1, 206), (0x187,
     0x187, 1, 1), (0x189, 0x18A, 1, 205), (0x18B, 0x18B, 1, 1), (0x18E, 0x18E, 1, 79), (0x18F,
     0x18F, 1, 202), (0x190, 0x190, 1, 203), (0x191, 0x191, 1, 1), (0x193, 0x193, 1, 205),
     (0x194, 0x194, 1, 207), (0x196, 0x196, 1, 211), (0x197, 0x197, 1, 209), (0x198, 0x198, 1,
     1), (0x19C, 0x19C, 1, 211), (0x19D, 0x19D, 1, 213), (0x19F, 0x19F, 1, 214), (0x1A0, 0x1A4,
     2, 1), (0x1A6, 0x1A6, 1, 218), (0x1A7, 0x1A7, 1, 1), (0x1A9, 0x1A9, 1, 218), (0x1AC, 0x1AC,
     1, 1), (0x1AE, 0x1AE, 1, 218), (0x1AF, 0x1AF, 1, 1), (0x1B1, 0x1B2, 1, 217), (0x1B3, 0x1B5,
     2, 1), (0x1B7, 0x1B7, 1, 219), (0x1B8, 0x1B8, 1, 1), (0x1BC, 0x1BC, 1, 1), (0x1C4, 0x1C4, 1,
     2), (0x1C5, 0x1C5, 1, 1), (0x1C7, 0x1C7, 1, 2), (0x1C8, 0x1C8, 1, 1), (0x1CA, 0x1CA, 1, 2),
     (0x1CB, 0x1DB, 2, 1), (0x1DE, 0x1EE, 2, 1), (0x1F1, 0x1F1, 1, 2), (0x1F2, 0x1F4, 2, 1),
     (0x1F6, 0x1F6, 1, -97), (0x1F7, 0x1F7, 1, -56), (0x1F8, 0x21E, 2, 1), (0x220, 0x220, 1,
     -130), (0x222, 0x232, 2, 1), (0x23A, 0x23A, 1, 10795), (0x23B, 0x23B, 1, 1), (0x23D, 0x23D,
     1, -163), (0x23E, 0x23E, 1, 10792), (0x241, 0x241, 1, 1), (0x243, 0x243, 1, -195), (0x244,
     0x244, 1, 69), (0x245, 0x245, 1, 71), (0x246, 0x24E, 2, 1), (0x370, 0x372, 2, 1), (0x376,
     0x376, 1, 1), (0x37F, 0x37F, 1, 116), (0x386, 0x386, 1, 38), (0x388, 0x38A, 1, 37), (0x38C,
     0x38C, 1, 64), (0x38E, 0x38F, 1, 63), (0x391, 0x3A1, 1, 32), (0x3A3, 0x3AB, 1, 32), (0x3CF,
     0x3CF, 1, 8), (0x3D8, 0x3EE, 2, 1), (0x3F4, 0x3F4, 1, -60), (0x3F7, 0x3F7, 1, 1), (0x3F9,
     0x3F9, 1, -7), (0x3FA, 0x3FA, 1, 1), (0x3FD, 0x3FF, 1, -130), (0x400, 0x40F, 1, 80), (0x410,
     0x42F, 1, 32), (0x460, 0x480, 2, 1), (0x48A, 0x4BE, 2, 1), (0x4C0, 0x4C0, 1, 15), (0x4C1,
     0x4CD, 2, 1), (0x4D0, 0x52E, 2, 1), (0x531, 0x556, 1, 48), (0x10A0, 0x10C5, 1, 7264),
     (0x10C7, 0x10C7, 1, 7264), (0x10CD, 0x10CD, 1, 7264), (0x13A0, 0x13EF, 1, 38864), (0x13F0,
     0x13F5, 1, 8), (0x1C90, 0x1CBA, 1, -3008), (0x1CBD, 0x1CBF, 1, -3008), (0x1E00, 0x1E94, 2,
     1), (0x1E9E, 0x1E9E, 1, -7615), (0x1EA0, 0x1EFE, 2, 1), (0x1F08, 0x1F0F, 1, -8), (0x1F18,
     0x1F1D, 1, -8), (0x1F28, 0x1F2F, 1, -8), (0x1F38, 0x1F3F, 1, -8), (0x1F48, 0x1F4D, 1, -8),
     (0x1F59, 0x1F5F, 2, -8), (0x1F68, 0x1F6F, 1, -8), (0x1F88, 0x1F8F, 1, -8), (0x1F98, 0x1F9F,
     1, -8), (0x1FA8, 0x1FAF, 1, -8), (0x1FB8, 0x1FB9, 1, -8), (0x1FBA, 0x1FBB, 1, -74), (0x1FBC,
     0x1FBC, 1, -9), (0x1FC8, 0x1FCB, 1, -86), (0x1FCC, 0x1FCC, 1, -9), (0x1FD8, 0x1FD9, 1, -8),
     (0x1FDA, 0x1FDB, 1, -100), (0x1FE8, 0x1FE9, 1, -8), (0x1FEA, 0x1FEB, 1, -112), (0x1FEC,
     0x1FEC, 1, -7), (0x1FF8, 0x1FF9, 1, -128), (0x1FFA, 0x1FFB, 1, -126), (0x1FFC, 0x1FFC, 1,
     -9), (0x2126, 0x2126, 1, -7517), (0x212A, 0x212A, 1, -8383), (0x212B, 0x212B, 1, -8262),
     (0x2132, 0x2132, 1, 28), (0x2160, 0x216F, 1, 16), (0x2183, 0x2183, 1, 1), (0x24B6, 0x24CF,
     1, 26), (0x2C00, 0x2C2F, 1, 48), (0x2C60, 0x2C60, 1, 1), (0x2C62, 0x2C62, 1, -10743),
     (0x2C63, 0x2C63, 1, -3814), (0x2C64, 0x2C64, 1, -10727), (0x2C67, 0x2C6B, 2, 1), (0x2C6D,
     0x2C6D, 1, -10780), (0x2C6E, 0x2C6E, 1, -10749), (0x2C6F, 0x2C6F, 1, -10783), (0x2C70,
     0x2C70, 1, -10782), (0x2C72, 0x2C72, 1, 1), (0x2C75, 0x2C75, 1, 1), (0x2C7E, 0x2C7F, 1,
     -10815), (0x2C80, 0x2CE2, 2, 1), (0x2CEB, 0x2CED, 2, 1), (0x2CF2, 0x2CF2, 1, 1), (0xA640,
     0xA66C, 2, 1), (0xA680, 0xA69A, 2, 1), (0xA722, 0xA72E, 2, 1), (0xA732, 0xA76E, 2, 1),
     (0xA779, 0xA77B, 2, 1), (0xA77D, 0xA77D, 1, -35332), (0xA77E, 0xA786, 2, 1), (0xA78B,
     0xA78B, 1, 1), (0xA78D, 0xA78D, 1, -42280), (0xA790, 0xA792, 2, 1), (0xA796, 0xA7A8, 2, 1),
     (0xA7AA, 0xA7AA, 1, -42308), (0xA7AB, 0xA7AB, 1, -42319), (0xA7AC, 0xA7AC, 1, -42315),
     (0xA7AD, 0xA7AD, 1, -42305), (0xA7AE, 0xA7AE, 1, -42308), (0xA7B0, 0xA7B0, 1, -42258),
     (0xA7B1, 0xA7B1, 1, -42282), (0xA7B2, 0xA7B2, 1, -42261), (0xA7B3, 0xA7B3, 1, 928), (0xA7B4,
     0xA7C2, 2, 1), (0xA7C4, 0xA7C4, 1, -48), (0xA7C5, 0xA7C5, 1, -42307), (0xA7C6, 0xA7C6, 1,
     -35384), (0xA7C7, 0xA7C9, 2, 1), (0xA7D0, 0xA7D0, 1, 1), (0xA7D6, 0xA7D8, 2, 1), (0xA7F5,
     0xA7F5, 1, 1), (0xFF21, 0xFF3A, 1, 32), (0x10400, 0x10427, 1, 40), (0x104B0, 0x104D3, 1,
     40), (0x10570, 0x1057A, 1, 39), (0x1057C, 0x1058A, 1, 39), (0x1058C, 0x10592, 1, 39),
     (0x10594, 0x10595, 1, 39), (0x10C80, 0x10CB2, 1, 64), (0x118A0, 0x118BF, 1, 32), (0x16E40,
     0x16E5F, 1, 32), (0x1E900, 0x1E921, 1, 34)]"

text \<open>\<open>str.isspace\<close> of one character; \<open>str.strip()\<close> removes these from both ends.\<close>

definition isspace :: "nat \<Rightarrow> bool" where
  "isspace c = in_ranges c space_ranges"

text \<open>
  \<open>str.isdigit\<close> of one character: the decimal digits (general category Nd) and the
  other characters with a digit value (superscripts, circled digits and so on).
\<close>

definition isdigit :: "nat \<Rightarrow> bool" where
  "isdigit c = (in_ranges c decimal_ranges \<or> in_ranges c other_digit_ranges)"

text \<open>
  The decimal value of an Nd character: every block of \<open>decimal_ranges\<close> starts at a
  zero digit and runs through whole decades.
\<close>

fun decimal_in :: "(nat \<times> nat) list \<Rightarrow> nat \<Rightarrow> nat option" where
  "decimal_in [] c = None"
| "decimal_in ((a, b) # rs) c =
     (if a \<le> c \<and> c \<le> b then Some ((c - a) mod 10) else decimal_in rs c)"

definition decimal_value :: "nat \<Rightarrow> nat option" where
  "decimal_value c = decimal_in decimal_ranges c"

text \<open>
  \<open>str.lower\<close>: an entry \<open>(a, b, k, d)\<close> of \<open>lower_table\<close> lowers every \<open>k\<close>-th code point
  from \<open>a\<close> to \<open>b\<close> by adding \<open>d\<close>; the table is sorted. U+0130 is the one code point whose
  lower case is two code points. The context rule for a final capital sigma (U+03A3) is
  left out: it is always lowered to U+03C3.
\<close>

fun lookup_lower :: "(nat \<times> nat \<times> nat \<times> int) list \<Rightarrow> nat \<Rightarrow> nat" where
  "lookup_lower [] c = c"
| "lookup_lower ((a, b, k, d) # rs) c =
     (if c < a then c
      else if c \<le> b \<and> (c - a) mod k = 0 then nat (int c + d)
      else lookup_lower rs c)"

definition lower_cp :: "nat \<Rightarrow> ustr" where
  "lower_cp c = (if c = 0x130 then [0x69, 0x307] else [lookup_lower lower_table c])"

definition py_lower :: "ustr \<Rightarrow> ustr" where
  "py_lower s = concat (map lower_cp s)"

definition py_strip :: "ustr \<Rightarrow> ustr" where
  "py_strip s = rev (dropWhile isspace (rev (dropWhile isspace s)))"

text \<open>\<open>sub in s\<close> for strings: \<open>sub\<close> occurs as a contiguous run of \<open>s\<close>.\<close>

fun py_in :: "ustr \<Rightarrow> ustr \<Rightarrow> bool" where
  "py_in sub [] = (sub = [])"
| "py_in sub (c # cs) = (prefix sub (c # cs) \<or> py_in sub cs)"

section \<open>Process steps (\<open>_stage\<close>, \<open>_product_steps\<close>)\<close>

text \<open>
  \<open>_stage\<close> returns the tuple \<open>(id, label, icon, desc, norm or {})\<close>; the record names its
  five components. A missing norm and an empty one both become the empty dictionary.
\<close>

record step =
  step_id :: string
  step_label :: ustr
  step_icon :: ustr
  step_desc :: ustr
  step_norm :: pydict

definition stage :: "string \<Rightarrow> ustr \<Rightarrow> ustr \<Rightarrow> ustr \<Rightarrow> pydict option \<Rightarrow> step" where
  "stage sid lbl icon desc nrm =
     \<lparr>step_id = sid, step_label = lbl, step_icon = icon, step_desc = desc,
      step_norm = (case nrm of None \<Rightarrow> Map.empty | Some d \<Rightarrow> d)\<rparr>"

text \<open>The stage literals of \<open>_product_steps\<close>, in the order of the source.\<close>

definition stage_accept :: step where
  "stage_accept = stage ''accept''
     [0x41F, 0x440, 0x438, 0x451, 0x43C, 0x43A, 0x430, 0x20, 0x441, 0x44B, 0x440, 0x44C, 0x44F]
     [0x1F4E5]
     [0x41E, 0x441, 0x43C, 0x43E, 0x442, 0x440, 0x20, 0x442, 0x430, 0x440, 0x44B, 0x2C, 0x20,
     0x43E, 0x440, 0x433, 0x430, 0x43D, 0x43E, 0x43B, 0x435, 0x43F, 0x442, 0x438, 0x43A, 0x430,
     0x2C, 0x20, 0x44D, 0x43A, 0x441, 0x43F, 0x440, 0x435, 0x441, 0x441, 0x2D, 0x430, 0x43D,
     0x430, 0x43B, 0x438, 0x437, 0x20, 0x441, 0x43E, 0x441, 0x442, 0x430, 0x432, 0x430, 0x2F,
     0x43E, 0x431, 0x441, 0x435, 0x43C, 0x435, 0x43D, 0x451, 0x43D, 0x43D, 0x43E, 0x441, 0x442,
     0x438, 0x2E]
     None"

definition stage_clarify :: step where
  "stage_clarify = stage ''clarify''
     [0x41E, 0x447, 0x438, 0x441, 0x442, 0x43A, 0x430, 0x20, 0x438, 0x20, 0x441, 0x43E, 0x440,
     0x442, 0x438, 0x440, 0x43E, 0x432, 0x43A, 0x430, 0x20, 0x28, 0x34, 0x2013, 0x36, 0x20, 0xB0,
     0x43, 0x29]
     [0x1F9FD]
     [0x424, 0x438, 0x43B, 0x44C, 0x442, 0x440, 0x430, 0x446, 0x438, 0x44F, 0x2F, 0x441, 0x435,
     0x43F, 0x430, 0x440, 0x430, 0x442, 0x43E, 0x440, 0x44B, 0x2E, 0x20, 0x41E, 0x446, 0x435,
     0x43D, 0x43A, 0x430, 0x20, 0x447, 0x438, 0x441, 0x442, 0x43E, 0x442, 0x44B, 0x2C, 0x20,
     0x43A, 0x438, 0x441, 0x43B, 0x43E, 0x442, 0x43D, 0x43E, 0x441, 0x442, 0x438, 0x20, 0x28,
     0xB0, 0x422, 0x29, 0x2C, 0x20, 0x43E, 0x43F, 0x440, 0x435, 0x434, 0x435, 0x43B, 0x435,
     0x43D, 0x438, 0x435, 0x20, 0x441, 0x43E, 0x440, 0x442, 0x430, 0x2E]
     (Some [''min'' \<mapsto> PInt 4, ''max'' \<mapsto> PInt 6, ''unit'' \<mapsto> PStr [0xB0,
     0x43], ''note'' \<mapsto> PStr [0x41E, 0x445, 0x43B, 0x430, 0x436, 0x434, 0x435, 0x43D,
     0x438, 0x435, 0x20, 0x434, 0x43E, 0x20, 0x34, 0x2013, 0x36, 0x20, 0xB0, 0x43, 0x20, 0x437,
     0x430, 0x43C, 0x435, 0x434, 0x43B, 0x44F, 0x435, 0x442, 0x20, 0x440, 0x43E, 0x441, 0x442,
     0x20, 0x431, 0x430, 0x43A, 0x442, 0x435, 0x440, 0x438, 0x439]])"

definition stage_normalization :: step where
  "stage_normalization = stage ''normalization''
     [0x41D, 0x43E, 0x440, 0x43C, 0x430, 0x43B, 0x438, 0x437, 0x430, 0x446, 0x438, 0x44F, 0x20,
     0x441, 0x43E, 0x441, 0x442, 0x430, 0x432, 0x430]
     [0x2696, 0xFE0F]
     [0x41F, 0x440, 0x438, 0x432, 0x435, 0x434, 0x435, 0x43D, 0x438, 0x435, 0x20, 0x43A, 0x20,
     0x43D, 0x43E, 0x440, 0x43C, 0x430, 0x43C, 0x20, 0x43F, 0x43E, 0x20, 0x436, 0x438, 0x440,
     0x43D, 0x43E, 0x441, 0x442, 0x438, 0x2F, 0x431, 0x435, 0x43B, 0x43A, 0x443, 0x2F, 0x432,
     0x438, 0x442, 0x430, 0x43C, 0x438, 0x43D, 0x430, 0x43C, 0x2F, 0x43C, 0x438, 0x43D, 0x435,
     0x440, 0x430, 0x43B, 0x430, 0x43C, 0x2E]
     None"

definition stage_homogenization :: step where
  "stage_homogenization = stage ''homogenization''
     [0x413, 0x43E, 0x43C, 0x43E, 0x433, 0x435, 0x43D, 0x438, 0x437, 0x430, 0x446, 0x438, 0x44F]
     [0x1F300]
     [0x414, 0x440, 0x43E, 0x431, 0x43B, 0x435, 0x43D, 0x438, 0x435, 0x20, 0x436, 0x438, 0x440,
     0x43E, 0x432, 0x44B, 0x445, 0x20, 0x448, 0x430, 0x440, 0x438, 0x43A, 0x43E, 0x432, 0x20,
     0x2192, 0x20, 0x43E, 0x434, 0x43D, 0x43E, 0x440, 0x43E, 0x434, 0x43D, 0x43E, 0x441, 0x442,
     0x44C, 0x2C, 0x20, 0x43E, 0x442, 0x441, 0x443, 0x442, 0x441, 0x442, 0x432, 0x438, 0x435,
     0x20, 0x43E, 0x442, 0x441, 0x442, 0x43E, 0x44F, 0x2E]
     None"

definition stage_pasteurization :: step where
  "stage_pasteurization = stage ''pasteurization''
     [0x41F, 0x430, 0x441, 0x442, 0x435, 0x440, 0x438, 0x437, 0x430, 0x446, 0x438, 0x44F, 0x20,
     0x28, 0x36, 0x35, 0x2013, 0x36, 0x39, 0x20, 0xB0, 0x43, 0x29]
     [0x1F525]
     [0x422, 0x435, 0x440, 0x43C, 0x43E, 0x43E, 0x431, 0x440, 0x430, 0x431, 0x43E, 0x442, 0x43A,
     0x430, 0x20, 0x434, 0x43B, 0x44F, 0x20, 0x441, 0x43D, 0x438, 0x436, 0x435, 0x43D, 0x438,
     0x44F, 0x20, 0x43C, 0x438, 0x43A, 0x440, 0x43E, 0x444, 0x43B, 0x43E, 0x440, 0x44B, 0x2E]
     (Some [''min'' \<mapsto> PInt 65, ''max'' \<mapsto> PInt 69, ''unit'' \<mapsto> PStr [0xB0,
     0x43], ''note'' \<mapsto> PStr [0x41F, 0x430, 0x441, 0x442, 0x435, 0x440, 0x438, 0x437,
     0x430, 0x446, 0x438, 0x44F, 0x20, 0x441, 0x43E, 0x433, 0x43B, 0x430, 0x441, 0x43D, 0x43E,
     0x20, 0x440, 0x435, 0x446, 0x435, 0x43F, 0x442, 0x443, 0x440, 0x435, 0x2F, 0x413, 0x41E,
     0x421, 0x422]])"

definition stage_cool_to_inoc :: step where
  "stage_cool_to_inoc = stage ''cool_to_inoc''
     [0x41E, 0x445, 0x43B, 0x430, 0x436, 0x434, 0x435, 0x43D, 0x438, 0x435, 0x20, 0x434, 0x43E,
     0x20, 0x437, 0x430, 0x43A, 0x432, 0x430, 0x448, 0x438, 0x432, 0x430, 0x43D, 0x438, 0x44F,
     0x20, 0x28, 0x33, 0x35, 0x2013, 0x34, 0x35, 0x20, 0xB0, 0x43, 0x29]
     [0x1F321, 0xFE0F]
     [0x41F, 0x435, 0x440, 0x435, 0x434, 0x20, 0x432, 0x43D, 0x435, 0x441, 0x435, 0x43D, 0x438,
     0x435, 0x43C, 0x20, 0x437, 0x430, 0x43A, 0x432, 0x430, 0x441, 0x43A, 0x438, 0x2E]
     (Some [''min'' \<mapsto> PInt 35, ''max'' \<mapsto> PInt 45, ''unit'' \<mapsto> PStr [0xB0,
     0x43]])"

definition stage_inoculation :: step where
  "stage_inoculation = stage ''inoculation''
     [0x412, 0x43D, 0x435, 0x441, 0x435, 0x43D, 0x438, 0x435, 0x20, 0x437, 0x430, 0x43A, 0x432,
     0x430, 0x441, 0x43A, 0x438]
     [0x1F9EB]
     [0x41A, 0x443, 0x43B, 0x44C, 0x442, 0x443, 0x440, 0x44B, 0x3A, 0x20, 0x441, 0x442, 0x440,
     0x435, 0x43F, 0x442, 0x43E, 0x43A, 0x43E, 0x43A, 0x43A, 0x2C, 0x20, 0x431, 0x43E, 0x43B,
     0x433, 0x430, 0x440, 0x441, 0x43A, 0x430, 0x44F, 0x20, 0x43F, 0x430, 0x43B, 0x43E, 0x447,
     0x43A, 0x430, 0x2C, 0x20, 0x434, 0x440, 0x43E, 0x436, 0x436, 0x438, 0x2E]
     None"

definition stage_fermentation :: step where
  "stage_fermentation = stage ''fermentation''
     [0x421, 0x43A, 0x432, 0x430, 0x448, 0x438, 0x432, 0x430, 0x43D, 0x438, 0x435, 0x20, 0x28,
     0x32, 0x30, 0x2013, 0x32, 0x35, 0x20, 0xB0, 0x43, 0x29]
     [0x23F1, 0xFE0F]
     [0x412, 0x44B, 0x434, 0x435, 0x440, 0x436, 0x43A, 0x430, 0x20, 0x43F, 0x440, 0x438, 0x20,
     0x437, 0x430, 0x434, 0x430, 0x43D, 0x43D, 0x43E, 0x439, 0x20, 0x442, 0x435, 0x43C, 0x43F,
     0x435, 0x440, 0x430, 0x442, 0x443, 0x440, 0x435, 0x2E]
     (Some [''min'' \<mapsto> PInt 20, ''max'' \<mapsto> PInt 25, ''unit'' \<mapsto> PStr [0xB0,
     0x43]])"

definition stage_salt :: step where
  "stage_salt = stage ''salt''
     [0x414, 0x43E, 0x431, 0x430, 0x432, 0x43B, 0x435, 0x43D, 0x438, 0x435, 0x20, 0x441, 0x43E,
     0x43B, 0x438, 0x20, 0x28, 0x31, 0x2E, 0x35, 0x2013, 0x32, 0x25, 0x29]
     [0x1F9C2]
     [0x41F, 0x435, 0x440, 0x435, 0x43C, 0x435, 0x448, 0x430, 0x442, 0x44C, 0x20, 0x434, 0x43E,
     0x20, 0x43E, 0x434, 0x43D, 0x43E, 0x440, 0x43E, 0x434, 0x43D, 0x43E, 0x441, 0x442, 0x438,
     0x2E]
     None"

definition stage_mix_water :: step where
  "stage_mix_water = stage ''mix_water''
     [0x421, 0x43C, 0x435, 0x448, 0x438, 0x432, 0x430, 0x43D, 0x438, 0x435, 0x20, 0x441, 0x20,
     0x432, 0x43E, 0x434, 0x43E, 0x439, 0x20, 0x2F, 0x20, 0x433, 0x430, 0x437, 0x438, 0x440,
     0x43E, 0x432, 0x430, 0x43D, 0x438, 0x435]
     [0x1F4A7]
     [0x421, 0x43C, 0x435, 0x448, 0x438, 0x432, 0x430, 0x43D, 0x438, 0x435, 0x20, 0x441, 0x20,
     0x43A, 0x438, 0x43F, 0x44F, 0x447, 0x451, 0x43D, 0x43E, 0x439, 0x20, 0x432, 0x43E, 0x434,
     0x43E, 0x439, 0x2C, 0x20, 0x433, 0x430, 0x437, 0x438, 0x440, 0x43E, 0x432, 0x430, 0x43D,
     0x438, 0x435, 0x2E]
     None"

definition stage_mature :: step where
  "stage_mature = stage ''mature''
     [0x421, 0x43E, 0x437, 0x440, 0x435, 0x432, 0x430, 0x43D, 0x438, 0x435, 0x20, 0x432, 0x20,
     0x431, 0x443, 0x442, 0x44B, 0x43B, 0x43A, 0x430, 0x445, 0x20, 0x28, 0x445, 0x43E, 0x43B,
     0x2E, 0x29]
     [0x1F976]
     [0x425, 0x43E, 0x43B, 0x43E, 0x434, 0x438, 0x43B, 0x44C, 0x43D, 0x43E, 0x435, 0x20, 0x441,
     0x43E, 0x437, 0x440, 0x435, 0x432, 0x430, 0x43D, 0x438, 0x435, 0x2E]
     None"

definition stage_label_ayran :: step where
  "stage_label_ayran = stage ''label''
     [0x420, 0x43E, 0x437, 0x43B, 0x438, 0x432, 0x2F, 0x443, 0x43F, 0x430, 0x43A, 0x43E, 0x432,
     0x43A, 0x430, 0x2F, 0x43C, 0x430, 0x440, 0x43A, 0x438, 0x440, 0x43E, 0x432, 0x43A, 0x430]
     [0x1F4E6]
     [0x413, 0x43E, 0x442, 0x43E, 0x432, 0x44B, 0x439, 0x20, 0x43F, 0x440, 0x43E, 0x434, 0x443,
     0x43A, 0x442, 0x2E]
     None"

definition stage_prep_cheese :: step where
  "stage_prep_cheese = stage ''prep_cheese''
     [0x41F, 0x43E, 0x434, 0x433, 0x43E, 0x442, 0x43E, 0x432, 0x43A, 0x430, 0x20, 0x43A, 0x20,
     0x432, 0x44B, 0x440, 0x430, 0x431, 0x43E, 0x442, 0x43A, 0x435]
     [0x1F9F0]
     [0x41A, 0x43E, 0x440, 0x440, 0x435, 0x43A, 0x446, 0x438, 0x44F, 0x20, 0x441, 0x43E, 0x441,
     0x442, 0x430, 0x432, 0x430, 0x2F, 0x43A, 0x430, 0x43B, 0x44C, 0x446, 0x438, 0x439, 0x2F,
     0x437, 0x430, 0x43A, 0x432, 0x430, 0x441, 0x43A, 0x438, 0x2E]
     None"

definition stage_rennet :: step where
  "stage_rennet = stage ''rennet''
     [0x421, 0x44B, 0x447, 0x443, 0x436, 0x43D, 0x43E, 0x435, 0x20, 0x441, 0x432, 0x435, 0x440,
     0x442, 0x44B, 0x432, 0x430, 0x43D, 0x438, 0x435]
     [0x1F9C0]
     [0x412, 0x43D, 0x435, 0x441, 0x435, 0x43D, 0x438, 0x435, 0x20, 0x444, 0x435, 0x440, 0x43C,
     0x435, 0x43D, 0x442, 0x430, 0x20, 0x2192, 0x20, 0x43E, 0x431, 0x440, 0x430, 0x437, 0x43E,
     0x432, 0x430, 0x43D, 0x438, 0x435, 0x20, 0x441, 0x433, 0x443, 0x441, 0x442, 0x43A, 0x430,
     0x2E]
     None"

definition stage_curd :: step where
  "stage_curd = stage ''curd''
     [0x41E, 0x431, 0x440, 0x430, 0x431, 0x43E, 0x442, 0x43A, 0x430, 0x20, 0x441, 0x433, 0x443,
     0x441, 0x442, 0x43A, 0x430]
     [0x1F52A]
     [0x420, 0x435, 0x437, 0x43A, 0x430, 0x2F, 0x43D, 0x430, 0x433, 0x440, 0x435, 0x432, 0x2F,
     0x43F, 0x435, 0x440, 0x435, 0x43C, 0x435, 0x448, 0x438, 0x432, 0x430, 0x43D, 0x438, 0x435,
     0x20, 0x2192, 0x20, 0x432, 0x44B, 0x434, 0x435, 0x43B, 0x435, 0x43D, 0x438, 0x435, 0x20,
     0x441, 0x44B, 0x432, 0x43E, 0x440, 0x43E, 0x442, 0x43A, 0x438, 0x2E]
     None"

definition stage_form :: step where
  "stage_form = stage ''form''
     [0x424, 0x43E, 0x440, 0x43C, 0x43E, 0x432, 0x430, 0x43D, 0x438, 0x435]
     [0x1F9F1]
     [0x412, 0x44B, 0x43A, 0x43B, 0x430, 0x434, 0x43A, 0x430, 0x20, 0x432, 0x20, 0x444, 0x43E,
     0x440, 0x43C, 0x44B, 0x2E]
     None"

definition stage_press :: step where
  "stage_press = stage ''press''
     [0x421, 0x430, 0x43C, 0x43E, 0x43F, 0x440, 0x435, 0x441, 0x441, 0x43E, 0x432, 0x430, 0x43D,
     0x438, 0x435, 0x2F, 0x43F, 0x440, 0x435, 0x441, 0x441, 0x43E, 0x432, 0x430, 0x43D, 0x438,
     0x435]
     [0x1F5DC, 0xFE0F]
     [0x41E, 0x441, 0x443, 0x448, 0x43A, 0x430, 0x20, 0x438, 0x20, 0x443, 0x43F, 0x43B, 0x43E,
     0x442, 0x43D, 0x435, 0x43D, 0x438, 0x435, 0x20, 0x441, 0x442, 0x440, 0x443, 0x43A, 0x442,
     0x443, 0x440, 0x44B, 0x2E]
     None"

definition stage_salt_dry :: step where
  "stage_salt_dry = stage ''salt_dry''
     [0x41F, 0x43E, 0x441, 0x43E, 0x43B, 0x43A, 0x430, 0x2F, 0x43E, 0x431, 0x441, 0x443, 0x448,
     0x43A, 0x430]
     [0x1F9C2]
     [0x420, 0x430, 0x441, 0x441, 0x43E, 0x43B, 0x2F, 0x441, 0x443, 0x445, 0x430, 0x44F, 0x20,
     0x43F, 0x43E, 0x441, 0x43E, 0x43B, 0x43A, 0x430, 0x3B, 0x20, 0x43E, 0x431, 0x441, 0x443,
     0x448, 0x43A, 0x430, 0x20, 0x32, 0x2013, 0x33, 0x20, 0x441, 0x443, 0x442, 0x43E, 0x43A,
     0x20, 0x28, 0x31, 0x30, 0x2013, 0x31, 0x32, 0x20, 0xB0, 0x43, 0x29, 0x2E]
     None"

definition stage_ripen :: step where
  "stage_ripen = stage ''ripen''
     [0x421, 0x43E, 0x437, 0x440, 0x435, 0x432, 0x430, 0x43D, 0x438, 0x435]
     [0x23F3]
     [0x41A, 0x430, 0x43C, 0x435, 0x440, 0x44B, 0x20, 0x441, 0x20, 0x43A, 0x43E, 0x43D, 0x442,
     0x440, 0x43E, 0x43B, 0x435, 0x43C, 0x20, 0x54, 0x2F, 0x432, 0x43B, 0x430, 0x436, 0x43D,
     0x43E, 0x441, 0x442, 0x438, 0x2E]
     None"

definition stage_label_cheese :: step where
  "stage_label_cheese = stage ''label''
     [0x423, 0x43F, 0x430, 0x43A, 0x43E, 0x432, 0x43A, 0x430, 0x2F, 0x445, 0x440, 0x430, 0x43D,
     0x435, 0x43D, 0x438, 0x435, 0x2F, 0x440, 0x435, 0x430, 0x43B, 0x438, 0x437, 0x430, 0x446,
     0x438, 0x44F]
     [0x1F4E6]
     [0x41A, 0x43E, 0x43D, 0x442, 0x440, 0x43E, 0x43B, 0x44C, 0x20, 0x43A, 0x430, 0x447, 0x435,
     0x441, 0x442, 0x432, 0x430, 0x20, 0x438, 0x20, 0x432, 0x44B, 0x43F, 0x443, 0x441, 0x43A,
     0x2E]
     None"

definition stage_cooling :: step where
  "stage_cooling = stage ''cooling''
     [0x41E, 0x445, 0x43B, 0x430, 0x436, 0x434, 0x435, 0x43D, 0x438, 0x435, 0x20, 0x28, 0x32,
     0x2013, 0x36, 0x20, 0xB0, 0x43, 0x29]
     [0x2744, 0xFE0F]
     [0x411, 0x44B, 0x441, 0x442, 0x440, 0x43E, 0x435, 0x20, 0x43E, 0x445, 0x43B, 0x430, 0x436,
     0x434, 0x435, 0x43D, 0x438, 0x435, 0x20, 0x43F, 0x43E, 0x441, 0x43B, 0x435, 0x20, 0x43F,
     0x430, 0x441, 0x442, 0x435, 0x440, 0x438, 0x437, 0x430, 0x446, 0x438, 0x438, 0x2E]
     (Some [''min'' \<mapsto> PInt 2, ''max'' \<mapsto> PInt 6, ''unit'' \<mapsto> PStr [0xB0,
     0x43]])"

definition stage_steril :: step where
  "stage_steril = stage ''steril''
     [0x421, 0x442, 0x435, 0x440, 0x438, 0x43B, 0x438, 0x437, 0x430, 0x446, 0x438, 0x44F, 0x20,
     0x2F, 0x20, 0x55, 0x48, 0x54]
     [0x1F9EA]
     [0x411, 0x435, 0x437, 0x43E, 0x43F, 0x430, 0x441, 0x43D, 0x43E, 0x441, 0x442, 0x44C, 0x20,
     0x438, 0x20, 0x434, 0x43B, 0x438, 0x442, 0x435, 0x43B, 0x44C, 0x43D, 0x44B, 0x439, 0x20,
     0x441, 0x440, 0x43E, 0x43A, 0x20, 0x445, 0x440, 0x430, 0x43D, 0x435, 0x43D, 0x438, 0x44F,
     0x2E]
     None"

definition stage_label_milk :: step where
  "stage_label_milk = stage ''label''
     [0x420, 0x43E, 0x437, 0x43B, 0x438, 0x432, 0x2F, 0x443, 0x43F, 0x430, 0x43A, 0x43E, 0x432,
     0x43A, 0x430, 0x2F, 0x43C, 0x430, 0x440, 0x43A, 0x438, 0x440, 0x43E, 0x432, 0x43A, 0x430]
     [0x1F4E6]
     [0x413, 0x43E, 0x442, 0x43E, 0x432, 0x44B, 0x439, 0x20, 0x43F, 0x440, 0x43E, 0x434, 0x443,
     0x43A, 0x442, 0x2E]
     None"

subsection \<open>Classification flags\<close>

text \<open>
  The product is a dictionary; \<open>prod.get(key, '')\<close> gives the empty string for a missing
  key. Attribute values are strings (on a string, \<open>str\<close> is the identity).
\<close>

type_synonym product = "string \<rightharpoonup> ustr"

definition dict_get :: "('k \<rightharpoonup> 'v) \<Rightarrow> 'k \<Rightarrow> 'v \<Rightarrow> 'v" where
  "dict_get d k dflt = (case d k of None \<Rightarrow> dflt | Some v \<Rightarrow> v)"

text \<open>The markers: "airan"; "irimshik" or "syr"; "moloko" (written in Cyrillic).\<close>

definition is_ayran :: "ustr \<Rightarrow> bool" where
  "is_ayran nlow = py_in [0x430, 0x439, 0x440, 0x430, 0x43D] nlow"

definition is_cheese :: "ustr \<Rightarrow> bool" where
  "is_cheese nlow =
     (py_in [0x456, 0x440, 0x456, 0x43C, 0x448, 0x456, 0x43A] nlow \<or>
      py_in [0x441, 0x44B, 0x440] nlow)"

definition is_milk :: "ustr \<Rightarrow> bool" where
  "is_milk nlow = py_in [0x43C, 0x43E, 0x43B, 0x43E, 0x43A, 0x43E] nlow"

text \<open>Goat raw material: "kozye", "koziy", "goat" or "eshki" in the name or in the source.\<close>

definition goat :: "ustr \<Rightarrow> ustr \<Rightarrow> bool" where
  "goat nlow slow =
     (py_in [0x43A, 0x43E, 0x437, 0x44C, 0x435] nlow \<or>
      py_in [0x43A, 0x43E, 0x437, 0x438, 0x439] nlow \<or>
      py_in (ascii ''goat'') nlow \<or>
      py_in [0x435, 0x448, 0x43A, 0x456] nlow \<or>
      py_in [0x43A, 0x43E, 0x437, 0x44C, 0x435] slow \<or>
      py_in [0x43A, 0x43E, 0x437, 0x438, 0x439] slow \<or>
      py_in (ascii ''goat'') slow \<or>
      py_in [0x435, 0x448, 0x43A, 0x456] slow)"

subsection \<open>Step derivation\<close>

definition product_steps :: "product \<Rightarrow> step list" where
  "product_steps prd =
     (let name = py_strip (dict_get prd ''name'' []);
          source = py_strip (dict_get prd ''source'' []);
          nlow = py_lower name;
          slow = py_lower source;
          common = [stage_accept, stage_clarify, stage_normalization];
          need_homogenization =
            (is_ayran nlow \<or> (is_milk nlow \<and> \<not> goat nlow slow) \<or>
             (is_cheese nlow \<and> \<not> goat nlow slow));
          common = (if need_homogenization then common @ [stage_homogenization] else common);
          common = common @ [stage_pasteurization];
          tail =
            (if is_ayran nlow then
               [stage_cool_to_inoc, stage_inoculation, stage_fermentation, stage_salt,
                stage_mix_water, stage_mature, stage_label_ayran]
             else if is_cheese nlow then
               [stage_prep_cheese, stage_rennet, stage_curd, stage_form, stage_press,
                stage_salt_dry, stage_ripen, stage_label_cheese]
             else
               [stage_cooling, stage_steril, stage_label_milk])
      in common @ tail)"

text \<open>
  The lower-cased, trimmed attributes that the flags are computed from (\<open>nlow\<close> and
  \<open>slow\<close> of the source).
\<close>

definition nlow_of :: "product \<Rightarrow> ustr" where
  "nlow_of prd = py_lower (py_strip (dict_get prd ''name'' []))"

definition slow_of :: "product \<Rightarrow> ustr" where
  "slow_of prd = py_lower (py_strip (dict_get prd ''source'' []))"

section \<open>Norms (\<open>default_norms\<close>, \<open>process_norms.json\<close>)\<close>

text \<open>
  The keys of the configuration are the process names "Pasterizatsiya", "Okhlazhdenie"
  and "Fermentatsiya" in Cyrillic.
\<close>

type_synonym norms_cfg = "ustr \<rightharpoonup> pydict"

definition key_pasteurization :: ustr where
  "key_pasteurization =
     [0x41F, 0x430, 0x441, 0x442, 0x435, 0x440, 0x438, 0x437, 0x430, 0x446, 0x438, 0x44F]"

definition key_cooling :: ustr where
  "key_cooling = [0x41E, 0x445, 0x43B, 0x430, 0x436, 0x434, 0x435, 0x43D, 0x438, 0x435]"

definition key_fermentation :: ustr where
  "key_fermentation =
     [0x424, 0x435, 0x440, 0x43C, 0x435, 0x43D, 0x442, 0x430, 0x446, 0x438, 0x44F]"

definition default_norms :: norms_cfg where
  "default_norms =
     [key_pasteurization \<mapsto>
        [''min'' \<mapsto> PFloat 72, ''max'' \<mapsto> PFloat 75, ''unit'' \<mapsto> PStr [0xB0, 0x43],
         ''note'' \<mapsto> PStr
           [0x422, 0x438, 0x43F, 0x43E, 0x432, 0x430, 0x44F, 0x20, 0x43F, 0x430, 0x441, 0x442,
            0x435, 0x440, 0x438, 0x437, 0x430, 0x446, 0x438, 0x44F, 0x20, 0x28, 0x37, 0x32,
            0x2013, 0x37, 0x35, 0xB0, 0x43, 0x29, 0x20, 0x2014, 0x20, 0x441, 0x43C, 0x2E, 0x20,
            0x43F, 0x440, 0x43E, 0x442, 0x43E, 0x43A, 0x43E, 0x43B, 0x2E]],
      key_cooling \<mapsto>
        [''min'' \<mapsto> PFloat 2, ''max'' \<mapsto> PFloat 6, ''unit'' \<mapsto> PStr [0xB0, 0x43],
         ''note'' \<mapsto> PStr
           [0x425, 0x440, 0x430, 0x43D, 0x435, 0x43D, 0x438, 0x435, 0x2F, 0x43E, 0x445, 0x43B,
            0x430, 0x436, 0x434, 0x435, 0x43D, 0x438, 0x435, 0x2E]],
      key_fermentation \<mapsto>
        [''min'' \<mapsto> PFloat 18, ''max'' \<mapsto> PFloat 42, ''unit'' \<mapsto> PStr [0xB0, 0x43],
         ''note'' \<mapsto> PStr
           [0x422, 0x435, 0x43C, 0x43F, 0x435, 0x440, 0x430, 0x442, 0x443, 0x440, 0x44B, 0x20,
            0x444, 0x435, 0x440, 0x43C, 0x435, 0x43D, 0x442, 0x430, 0x446, 0x438, 0x438, 0x20,
            0x2014, 0x20, 0x437, 0x430, 0x432, 0x438, 0x441, 0x44F, 0x442, 0x20, 0x43E, 0x442,
            0x20, 0x440, 0x435, 0x446, 0x435, 0x43F, 0x442, 0x443, 0x440, 0x44B, 0x2E]]]"

text \<open>
  The module-level \<open>norms\<close>. The argument is what the file system gives: \<open>None\<close> when
  \<open>process_norms.json\<close> does not exist, \<open>Some (Inl e)\<close> when reading or \<open>json.loads\<close>
  raises, \<open>Some (Inr d)\<close> when the file parses to \<open>d\<close>. A parsed file replaces the
  defaults as a whole.
\<close>

definition load_norms :: "(py_error + norms_cfg) option \<Rightarrow> norms_cfg" where
  "load_norms file =
     (case file of
        None \<Rightarrow> default_norms
      | Some (Inl e) \<Rightarrow> default_norms
      | Some (Inr d) \<Rightarrow> d)"

section \<open>Numeric parsing (\<open>parse_numeric\<close>)\<close>

text \<open>
  A cell of a table: \<open>None\<close>, \<open>pd.NA\<close>, an integer, a float (\<open>CFloat NaN\<close> is the float
  missing value) or a string.
\<close>

datatype cell = CNone | CNA | CInt int | CFloat pyfloat | CStr ustr

fun isna :: "cell \<Rightarrow> bool" where
  "isna CNone = True"
| "isna CNA = True"
| "isna (CFloat f) = (f = NaN)"
| "isna (CInt i) = False"
| "isna (CStr s) = False"

subsection \<open>\<open>str.replace\<close> and \<open>str.split\<close>\<close>

text \<open>
  \<open>s.replace(old, new)\<close> replaces the occurrences of \<open>old\<close> from left to right without
  overlap; an empty \<open>old\<close> matches before every character and at the end.
\<close>

fun py_replace :: "ustr \<Rightarrow> ustr \<Rightarrow> ustr \<Rightarrow> ustr" where
  "py_replace [] new s = new @ concat (map (\<lambda>c. c # new) s)"
| "py_replace (p # ps) new [] = []"
| "py_replace (p # ps) new (c # cs) =
     (if prefix (p # ps) (c # cs) then new @ py_replace (p # ps) new (drop (length ps) cs)
      else c # py_replace (p # ps) new cs)"

text \<open>\<open>s.split(sep)[0]\<close>: the part of \<open>s\<close> before the first occurrence of \<open>sep\<close>.\<close>

fun split_head :: "ustr \<Rightarrow> ustr \<Rightarrow> ustr" where
  "split_head sep [] = []"
| "split_head sep (c # cs) = (if prefix sep (c # cs) then [] else c # split_head sep cs)"

subsection \<open>\<open>float\<close> of an integer and of a string\<close>

text \<open>
  Conversion rounds to nearest, ties to even: a magnitude from \<open>2^1024 - 2^970\<close> on is
  beyond the largest double. \<open>float(int)\<close> raises there, \<open>float(str)\<close> gives an infinity.
\<close>

definition double_limit :: rat where
  "double_limit = 2 ^ 1024 - 2 ^ 970"

definition to_double :: "rat \<Rightarrow> pyfloat" where
  "to_double q =
     (if double_limit \<le> q then PInf else if q \<le> - double_limit then NInf else Fin q)"

definition float_of_int :: "int \<Rightarrow> py_error + pyfloat" where
  "float_of_int i =
     (if double_limit \<le> \<bar>of_int i\<bar> then Inl OverflowError else Inr (Fin (of_int i)))"

text \<open>
  \<open>float(str)\<close> first maps every non-ASCII white space to a blank and every non-ASCII
  decimal digit to its ASCII digit; the first other non-ASCII character becomes \<open>?\<close> and
  ends the text. An all-ASCII string is taken as it is.
\<close>

fun to_ascii :: "ustr \<Rightarrow> ustr" where
  "to_ascii [] = []"
| "to_ascii (c # cs) =
     (if c < 127 then c # to_ascii cs
      else if isspace c then 0x20 # to_ascii cs
      else (case decimal_value c of None \<Rightarrow> [0x3F] | Some d \<Rightarrow> (0x30 + d) # to_ascii cs))"

definition transform_decimal_and_space :: "ustr \<Rightarrow> ustr" where
  "transform_decimal_and_space s = (if list_all (\<lambda>c. c < 128) s then s else to_ascii s)"

definition c_isspace :: "nat \<Rightarrow> bool" where
  "c_isspace c = ((0x09 \<le> c \<and> c \<le> 0x0D) \<or> c = 0x20)"

definition c_isdigit :: "nat \<Rightarrow> bool" where
  "c_isdigit c = (0x30 \<le> c \<and> c \<le> 0x39)"

definition c_tolower :: "nat \<Rightarrow> nat" where
  "c_tolower c = (if 0x41 \<le> c \<and> c \<le> 0x5A then c + 32 else c)"

text \<open>
  Underscores are allowed between two digits only; \<open>prev\<close> is the character before.
  The result is the text without them, or \<open>None\<close> for a misplaced underscore.
\<close>

fun drop_underscores :: "nat \<Rightarrow> ustr \<Rightarrow> ustr option" where
  "drop_underscores prev [] = (if prev = 0x5F then None else Some [])"
| "drop_underscores prev (c # cs) =
     (if c = 0x5F then (if c_isdigit prev then drop_underscores c cs else None)
      else if prev = 0x5F \<and> \<not> c_isdigit c then None
      else map_option ((#) c) (drop_underscores c cs))"

definition take_sign :: "ustr \<Rightarrow> bool \<times> ustr" where
  "take_sign s =
     (case s of
        [] \<Rightarrow> (False, [])
      | c # cs \<Rightarrow> if c = 0x2D then (True, cs) else if c = 0x2B then (False, cs) else (False, s))"

definition digits_val :: "ustr \<Rightarrow> nat" where
  "digits_val ds = foldl (\<lambda>a c. 10 * a + (c - 0x30)) 0 ds"

text \<open>
  The decimal literal at the start of a text: sign, digits, optional point and digits (at
  least one digit in all), and an exponent that is read only when it has digits. The
  result is the sign, the digits as a number, the count of fraction digits, the exponent
  and the text left over; \<open>None\<close> when no number starts here.
\<close>

definition exponent_part :: "ustr \<Rightarrow> int \<times> ustr" where
  "exponent_part r =
     (case r of
        [] \<Rightarrow> (0, r)
      | c # t \<Rightarrow>
          if c = 0x65 \<or> c = 0x45 then
            (let (eneg, t1) = take_sign t; ed = takeWhile c_isdigit t1
             in if ed = [] then (0, r)
                else ((if eneg then - int (digits_val ed) else int (digits_val ed)),
                      dropWhile c_isdigit t1))
          else (0, r))"

definition strtod :: "ustr \<Rightarrow> (bool \<times> nat \<times> nat \<times> int \<times> ustr) option" where
  "strtod s =
     (let (neg, s1) = take_sign s;
          ip = takeWhile c_isdigit s1;
          r1 = dropWhile c_isdigit s1;
          (fp, r2) =
            (case r1 of
               [] \<Rightarrow> ([], r1)
             | c # t \<Rightarrow>
                 if c = 0x2E then (takeWhile c_isdigit t, dropWhile c_isdigit t) else ([], r1))
      in if ip = [] \<and> fp = [] then None
         else (let (ex, r3) = exponent_part r2
               in Some (neg, digits_val (ip @ fp), length fp, ex, r3)))"

definition decimal_value_of :: "bool \<Rightarrow> nat \<Rightarrow> nat \<Rightarrow> int \<Rightarrow> rat" where
  "decimal_value_of neg m fl ex =
     (let e = ex - int fl;
          mag = (if 0 \<le> e then of_nat m * 10 ^ nat e else of_nat m / 10 ^ nat (- e))
      in if neg then - mag else mag)"

definition ci_match :: "ustr \<Rightarrow> string \<Rightarrow> bool" where
  "ci_match s t = (map c_tolower (take (length t) s) = ascii t)"

definition parse_inf_or_nan :: "ustr \<Rightarrow> (pyfloat \<times> ustr) option" where
  "parse_inf_or_nan p =
     (let (neg, s) = take_sign p
      in if ci_match s ''inf'' then
           (let s = drop 3 s; s = (if ci_match s ''inity'' then drop 5 s else s)
            in Some (if neg then NInf else PInf, s))
         else if ci_match s ''nan'' then Some (NaN, drop 3 s)
         else None)"

definition py_float :: "ustr \<Rightarrow> py_error + pyfloat" where
  "py_float v =
     (let s = transform_decimal_and_space v;
          s = rev (dropWhile c_isspace (rev (dropWhile c_isspace s)))
      in case (if 0x5F \<in> set s then drop_underscores 0 s else Some s) of
           None \<Rightarrow> Inl ValueError
         | Some w \<Rightarrow>
             (case strtod w of
                Some (neg, m, fl, ex, rest) \<Rightarrow>
                  if rest = [] then Inr (to_double (decimal_value_of neg m fl ex))
                  else Inl ValueError
              | None \<Rightarrow>
                  (case parse_inf_or_nan w of
                     Some (f, rest) \<Rightarrow> if rest = [] then Inr f else Inl ValueError
                   | None \<Rightarrow> Inl ValueError)))"

subsection \<open>The parser\<close>

text \<open>The scan loop: \<open>cleaned\<close> grows while the characters may belong to a number.\<close>

fun scan_numeric :: "ustr \<Rightarrow> ustr \<Rightarrow> ustr" where
  "scan_numeric cleaned [] = cleaned"
| "scan_numeric cleaned (ch # s) =
     (if isdigit ch \<or> py_in [ch] (ascii ''.-+eE'') then scan_numeric (cleaned @ [ch]) s
      else cleaned)"

text \<open>The "not detected" marker "ne obnaruzh" (Cyrillic).\<close>

definition not_detected :: ustr where
  "not_detected = [0x43D, 0x435, 0x20, 0x43E, 0x431, 0x43D, 0x430, 0x440, 0x443, 0x436]"

text \<open>The string after the replacements and the cut at the tolerance sign U+00B1.\<close>

definition normalize_numeric :: "ustr \<Rightarrow> ustr" where
  "normalize_numeric s0 =
     (let s = py_replace [0x2C] [0x2E] (py_replace [0x20] [] s0);
          s = py_replace (ascii ''x10^'') (ascii ''e'')
                (py_replace [0xD7, 0x31, 0x30, 0x5E] (ascii ''e'') s);
          s = py_replace [0xD7] []
                (py_replace (ascii ''x10'') (ascii ''e'')
                  (py_replace [0xD7, 0x31, 0x30] (ascii ''e'') s))
      in if py_in [0xB1] s then split_head [0xB1] s else s)"

definition parse_numeric :: "cell \<Rightarrow> py_error + pyfloat" where
  "parse_numeric val =
     (if isna val then Inr NaN
      else case val of
          CInt i \<Rightarrow> float_of_int i
        | CFloat f \<Rightarrow> Inr f
        | CStr v \<Rightarrow>
            (let s = py_strip v
             in if s = [] \<or> py_in not_detected (py_lower s) then Inr NaN
                else (let cleaned = scan_numeric [] (normalize_numeric s)
                      in case py_float cleaned of Inl e \<Rightarrow> Inr NaN | Inr x \<Rightarrow> Inr x))
        | CNone \<Rightarrow> Inr NaN
        | CNA \<Rightarrow> Inr NaN)"

section \<open>Identifier coercion (\<open>to_intlike\<close>)\<close>

text \<open>
  A table maps column names to columns. A column is one of the arrays that \<open>read_csv\<close>
  gives for identifier data, or the nullable array that coercion leaves behind: 64-bit
  integers (read as signed), doubles with NaN for a missing cell (here \<open>Fin q\<close> is the
  double \<open>q\<close> itself), text cells with \<open>None\<close> for a missing cell, or 64-bit integers with
  \<open>None\<close> for \<open>pd.NA\<close>.
\<close>

datatype column =
    Int64Col "64 word list"
  | Float64Col "pyfloat list"
  | ObjectCol "ustr option list"
  | NullableCol "64 word option list"

type_synonym table = "string \<rightharpoonup> column"

text \<open>
  \<open>pd.to_numeric(..., errors='coerce')\<close> returns a numeric column as it is. What it makes
  of an object column (the text grammar, the dtype it settles on, whether it raises) is
  pandas' own and stays a parameter \<open>obj_num\<close>.
\<close>

definition to_numeric_coerce ::
  "(ustr option list \<Rightarrow> py_error + column) \<Rightarrow> column \<Rightarrow> py_error + column" where
  "to_numeric_coerce obj_num c =
     (case c of
        ObjectCol cells \<Rightarrow> obj_num cells
      | Int64Col ws \<Rightarrow> Inr c
      | Float64Col fs \<Rightarrow> Inr c
      | NullableCol ws \<Rightarrow> Inr c)"

text \<open>The larger of two floats where NaN counts for nothing, and the largest of a column.\<close>

fun fmax :: "pyfloat \<Rightarrow> pyfloat \<Rightarrow> pyfloat" where
  "fmax NaN y = y"
| "fmax x NaN = x"
| "fmax PInf y = PInf"
| "fmax x PInf = PInf"
| "fmax NInf y = y"
| "fmax x NInf = x"
| "fmax (Fin a) (Fin b) = Fin (max a b)"

definition nanmax :: "pyfloat list \<Rightarrow> pyfloat" where
  "nanmax fs = foldr fmax fs NaN"

fun castable :: "pyfloat \<Rightarrow> bool" where
  "castable NaN = True"
| "castable (Fin q) = (of_int \<lfloor>q\<rfloor> = q \<and> - (2 ^ 63) \<le> q \<and> q < 2 ^ 63)"
| "castable PInf = False"
| "castable NInf = False"

fun cast_cell :: "pyfloat \<Rightarrow> 64 word option" where
  "cast_cell (Fin q) = Some (word_of_int \<lfloor>q\<rfloor>)"
| "cast_cell NaN = None"
| "cast_cell PInf = None"
| "cast_cell NInf = None"

fun below_int64 :: "pyfloat \<Rightarrow> bool" where
  "below_int64 NInf = True"
| "below_int64 (Fin q) = (q < - (2 ^ 63))"
| "below_int64 PInf = False"
| "below_int64 NaN = False"

text \<open>
  \<open>astype("Int64")\<close> of a float column. NaN becomes \<open>pd.NA\<close>. The cast first turns the
  largest number of the column into an integer, which raises \<open>OverflowError\<close> on an
  infinity. When the largest number is whole, the column is cast as an array of doubles
  and every number has to be whole and within 64 bits, else \<open>TypeError\<close>. When it is
  fractional, the numbers are cast one by one as Python floats: \<open>OverflowError\<close> on a
  number below the 64-bit range, and \<open>TypeError\<close> otherwise, the largest number not being
  whole.
\<close>

definition astype_float :: "pyfloat list \<Rightarrow> py_error + 64 word option list" where
  "astype_float fs =
     (case nanmax fs of
        NaN \<Rightarrow> Inr (map cast_cell fs)
      | PInf \<Rightarrow> Inl OverflowError
      | NInf \<Rightarrow> Inl OverflowError
      | Fin m \<Rightarrow>
          if of_int \<lfloor>m\<rfloor> = m then
            (if list_all castable fs then Inr (map cast_cell fs) else Inl TypeError)
          else (if list_ex below_int64 fs then Inl OverflowError else Inl TypeError))"

text \<open>
  \<open>astype("Int64")\<close> of a column. An integer column keeps every integer and a nullable
  column is returned as it is. The cast of an object column, reached when \<open>to_numeric\<close>
  hands the object column back, is pandas' own and stays a parameter \<open>obj_cast\<close>.
\<close>

definition astype_Int64 ::
  "(ustr option list \<Rightarrow> py_error + 64 word option list) \<Rightarrow> column \<Rightarrow> py_error + column" where
  "astype_Int64 obj_cast c =
     (case c of
        Int64Col ws \<Rightarrow> Inr (NullableCol (map Some ws))
      | Float64Col fs \<Rightarrow>
          (case astype_float fs of Inl e \<Rightarrow> Inl e | Inr ws \<Rightarrow> Inr (NullableCol ws))
      | ObjectCol cells \<Rightarrow>
          (case obj_cast cells of Inl e \<Rightarrow> Inl e | Inr ws \<Rightarrow> Inr (NullableCol ws))
      | NullableCol ws \<Rightarrow> Inr (NullableCol ws))"

definition to_intlike ::
  "(ustr option list \<Rightarrow> py_error + column) \<Rightarrow>
   (ustr option list \<Rightarrow> py_error + 64 word option list) \<Rightarrow>
   table \<Rightarrow> string \<Rightarrow> py_error + table" where
  "to_intlike obj_num obj_cast df col =
     (case df col of
        None \<Rightarrow> Inr df
      | Some c \<Rightarrow>
          (case to_numeric_coerce obj_num c of
             Inl e \<Rightarrow> Inl e
           | Inr n \<Rightarrow>
               (case astype_Int64 obj_cast n of
                  Inl e \<Rightarrow> Inl e
                | Inr r \<Rightarrow> Inr (df(col \<mapsto> r)))))"

section \<open>The catalogue\<close>

text \<open>
  The entries of \<open>fixed_products\<close> with the two attributes that step derivation reads:
  "Moloko (kozye)" from "kozye", "Sary irimshik (kozye)" from "kozye", and "Airan" from
  "korovye".
\<close>

definition goat_milk :: product where
  "goat_milk =
     [''name'' \<mapsto>
        [0x41C, 0x43E, 0x43B, 0x43E, 0x43A, 0x43E, 0x20, 0x28, 0x43A, 0x43E, 0x437, 0x44C,
         0x435, 0x29],
      ''source'' \<mapsto> [0x43A, 0x43E, 0x437, 0x44C, 0x435]]"

definition goat_cheese :: product where
  "goat_cheese =
     [''name'' \<mapsto>
        [0x421, 0x430, 0x440, 0x44B, 0x20, 0x456, 0x440, 0x456, 0x43C, 0x448, 0x456, 0x43A,
         0x20, 0x28, 0x43A, 0x43E, 0x437, 0x44C, 0x435, 0x29],
      ''source'' \<mapsto> [0x43A, 0x43E, 0x437, 0x44C, 0x435]]"

definition ayran :: product where
  "ayran =
     [''name'' \<mapsto> [0x410, 0x439, 0x440, 0x430, 0x43D],
      ''source'' \<mapsto> [0x43A, 0x43E, 0x440, 0x43E, 0x432, 0x44C, 0x435]]"

text \<open>
  Three products whose names carry several markers or none: "moloko syr airan",
  "syr moloko" and \<open>Kefir\<close>. None of them has a \<open>source\<close> entry.
\<close>

definition milk_cheese_ayran :: product where
  "milk_cheese_ayran =
     [''name'' \<mapsto>
        [0x43C, 0x43E, 0x43B, 0x43E, 0x43A, 0x43E, 0x20, 0x441, 0x44B, 0x440, 0x20, 0x430,
         0x439, 0x440, 0x430, 0x43D]]"

definition cheese_milk :: product where
  "cheese_milk =
     [''name'' \<mapsto> [0x441, 0x44B, 0x440, 0x20, 0x43C, 0x43E, 0x43B, 0x43E, 0x43A, 0x43E]]"

definition kefir :: product where
  "kefir = [''name'' \<mapsto> ascii ''Kefir'']"

text \<open>A configuration file that gives its own norm for the pasteurization process.\<close>

definition override_norm :: pydict where
  "override_norm =
     [''min'' \<mapsto> PFloat 80, ''max'' \<mapsto> PFloat 85, ''unit'' \<mapsto> PStr [0xB0, 0x43],
      ''note'' \<mapsto> PStr (ascii ''HTST'')]"

definition override_norms :: norms_cfg where
  "override_norms = [key_pasteurization \<mapsto> override_norm]"

text \<open>
  Two tables for identifier coercion: a products table whose \<open>product_id\<close> column was read
  as the doubles 1.0 and 1.5, and a samples table whose \<open>sample_id\<close> column was read as the
  doubles 7.0 and 3.0 around a missing cell.
\<close>

definition fractional_ids :: table where
  "fractional_ids = [''product_id'' \<mapsto> Float64Col [Fin 1, Fin (3 / 2)]]"

definition mixed_ids :: table where
  "mixed_ids = [''sample_id'' \<mapsto> Float64Col [Fin 7, NaN, Fin 3]]"

section \<open>Evaluating the string functions\<close>

lemma py_in_iff_sublist: "py_in sub s \<longleftrightarrow> sublist sub s"
proof (induction s)
  case Nil
  then show ?case by simp
next
  case (Cons c cs)
  then show ?case by (cases sub) (simp_all add: sublist_Cons_right)
qed

lemma lookup_lower_below_A: "c < 0x41 \<Longrightarrow> lookup_lower lower_table c = c"
  by (simp add: lower_table_def)

lemma lookup_lower_ascii_upper:
  "0x41 \<le> c \<Longrightarrow> c \<le> 0x5A \<Longrightarrow> lookup_lower lower_table c = c + 32"
  by (simp add: lower_table_def)

lemma lookup_lower_ascii_rest: "0x5B \<le> c \<Longrightarrow> c < 0xC0 \<Longrightarrow> lookup_lower lower_table c = c"
  by (simp add: lower_table_def)

lemma lookup_lower_cyr_upper:
  "0x410 \<le> c \<Longrightarrow> c \<le> 0x42F \<Longrightarrow> lookup_lower lower_table c = c + 32"
  by (simp add: lower_table_def)

lemma lookup_lower_cyr_lower: "0x430 \<le> c \<Longrightarrow> c < 0x460 \<Longrightarrow> lookup_lower lower_table c = c"
  by (simp add: lower_table_def)

lemma lower_cp_below_A: "c < 0x41 \<Longrightarrow> lower_cp c = [c]"
  by (simp add: lower_cp_def lookup_lower_below_A)

lemma lower_cp_ascii_upper: "0x41 \<le> c \<Longrightarrow> c \<le> 0x5A \<Longrightarrow> lower_cp c = [c + 32]"
  by (simp add: lower_cp_def lookup_lower_ascii_upper)

lemma lower_cp_ascii_rest: "0x5B \<le> c \<Longrightarrow> c < 0xC0 \<Longrightarrow> lower_cp c = [c]"
  by (simp add: lower_cp_def lookup_lower_ascii_rest)

lemma lower_cp_cyr_upper: "0x410 \<le> c \<Longrightarrow> c \<le> 0x42F \<Longrightarrow> lower_cp c = [c + 32]"
  by (simp add: lower_cp_def lookup_lower_cyr_upper)

lemma lower_cp_cyr_lower: "0x430 \<le> c \<Longrightarrow> c < 0x460 \<Longrightarrow> lower_cp c = [c]"
  by (simp add: lower_cp_def lookup_lower_cyr_lower)

lemmas lower_cp_eval =
  lower_cp_below_A lower_cp_ascii_upper lower_cp_ascii_rest lower_cp_cyr_upper
  lower_cp_cyr_lower

lemma isspace_iff:
  "isspace c \<longleftrightarrow>
     (0x9 \<le> c \<and> c \<le> 0xD) \<or> (0x1C \<le> c \<and> c \<le> 0x20) \<or> (0x85 \<le> c \<and> c \<le> 0x85) \<or>
     (0xA0 \<le> c \<and> c \<le> 0xA0) \<or> (0x1680 \<le> c \<and> c \<le> 0x1680) \<or>
     (0x2000 \<le> c \<and> c \<le> 0x200A) \<or> (0x2028 \<le> c \<and> c \<le> 0x2029) \<or>
     (0x202F \<le> c \<and> c \<le> 0x202F) \<or> (0x205F \<le> c \<and> c \<le> 0x205F) \<or>
     (0x3000 \<le> c \<and> c \<le> 0x3000)"
  by (simp add: isspace_def space_ranges_def)

lemma not_isspace_ascii: "0x21 \<le> c \<Longrightarrow> c < 0x85 \<Longrightarrow> \<not> isspace c"
  by (simp add: isspace_iff)

lemma not_isspace_cyr: "0x400 \<le> c \<Longrightarrow> c < 0x1680 \<Longrightarrow> \<not> isspace c"
  by (simp add: isspace_iff)

lemmas strip_eval = py_strip_def not_isspace_ascii not_isspace_cyr

lemma ascii_goat: "ascii ''goat'' = [0x67, 0x6F, 0x61, 0x74]"
  by (simp add: ascii_def)

lemmas flag_defs = is_ayran_def is_cheese_def is_milk_def goat_def ascii_goat

section \<open>The shape of the derived step list\<close>

lemma stage_ids:
  "step_id stage_accept = ''accept''"
  "step_id stage_clarify = ''clarify''"
  "step_id stage_normalization = ''normalization''"
  "step_id stage_homogenization = ''homogenization''"
  "step_id stage_pasteurization = ''pasteurization''"
  "step_id stage_cool_to_inoc = ''cool_to_inoc''"
  "step_id stage_inoculation = ''inoculation''"
  "step_id stage_fermentation = ''fermentation''"
  "step_id stage_salt = ''salt''"
  "step_id stage_mix_water = ''mix_water''"
  "step_id stage_mature = ''mature''"
  "step_id stage_label_ayran = ''label''"
  "step_id stage_prep_cheese = ''prep_cheese''"
  "step_id stage_rennet = ''rennet''"
  "step_id stage_curd = ''curd''"
  "step_id stage_form = ''form''"
  "step_id stage_press = ''press''"
  "step_id stage_salt_dry = ''salt_dry''"
  "step_id stage_ripen = ''ripen''"
  "step_id stage_label_cheese = ''label''"
  "step_id stage_cooling = ''cooling''"
  "step_id stage_steril = ''steril''"
  "step_id stage_label_milk = ''label''"
  by (simp_all add: stage_def stage_accept_def stage_clarify_def stage_normalization_def
      stage_homogenization_def stage_pasteurization_def stage_cool_to_inoc_def
      stage_inoculation_def stage_fermentation_def stage_salt_def stage_mix_water_def
      stage_mature_def stage_label_ayran_def stage_prep_cheese_def stage_rennet_def
      stage_curd_def stage_form_def stage_press_def stage_salt_dry_def stage_ripen_def
      stage_label_cheese_def stage_cooling_def stage_steril_def stage_label_milk_def)

text \<open>The step list in terms of the flags; every later fact about it starts here.\<close>

lemma product_steps_unfold:
  "product_steps prd =
     [stage_accept, stage_clarify, stage_normalization] @
     (if is_ayran (nlow_of prd) \<or> (is_milk (nlow_of prd) \<and> \<not> goat (nlow_of prd) (slow_of prd)) \<or>
         (is_cheese (nlow_of prd) \<and> \<not> goat (nlow_of prd) (slow_of prd))
      then [stage_homogenization] else []) @
     [stage_pasteurization] @
     (if is_ayran (nlow_of prd) then
        [stage_cool_to_inoc, stage_inoculation, stage_fermentation, stage_salt,
         stage_mix_water, stage_mature, stage_label_ayran]
      else if is_cheese (nlow_of prd) then
        [stage_prep_cheese, stage_rennet, stage_curd, stage_form, stage_press,
         stage_salt_dry, stage_ripen, stage_label_cheese]
      else [stage_cooling, stage_steril, stage_label_milk])"
  unfolding product_steps_def Let_def nlow_of_def slow_of_def by simp

lemma product_steps_ids:
  "map step_id (product_steps prd) =
     [''accept'', ''clarify'', ''normalization''] @
     (if is_ayran (nlow_of prd) \<or> (is_milk (nlow_of prd) \<and> \<not> goat (nlow_of prd) (slow_of prd)) \<or>
         (is_cheese (nlow_of prd) \<and> \<not> goat (nlow_of prd) (slow_of prd))
      then [''homogenization''] else []) @
     [''pasteurization''] @
     (if is_ayran (nlow_of prd) then
        [''cool_to_inoc'', ''inoculation'', ''fermentation'', ''salt'', ''mix_water'',
         ''mature'', ''label'']
      else if is_cheese (nlow_of prd) then
        [''prep_cheese'', ''rennet'', ''curd'', ''form'', ''press'', ''salt_dry'', ''ripen'',
         ''label'']
      else [''cooling'', ''steril'', ''label''])"
  unfolding product_steps_unfold by (simp add: stage_ids)

section \<open>Claims about step derivation\<close>

lemma nlow_goat_milk:
  "nlow_of goat_milk =
     [0x43C, 0x43E, 0x43B, 0x43E, 0x43A, 0x43E, 0x20, 0x28, 0x43A, 0x43E, 0x437, 0x44C, 0x435,
      0x29]"
  by (simp add: nlow_of_def goat_milk_def dict_get_def strip_eval py_lower_def lower_cp_eval)

lemma slow_goat_milk: "slow_of goat_milk = [0x43A, 0x43E, 0x437, 0x44C, 0x435]"
  by (simp add: slow_of_def goat_milk_def dict_get_def strip_eval py_lower_def lower_cp_eval)

lemma flags_goat_milk:
  "\<not> is_ayran (nlow_of goat_milk)"
  "\<not> is_cheese (nlow_of goat_milk)"
  "is_milk (nlow_of goat_milk)"
  "goat (nlow_of goat_milk) (slow_of goat_milk)"
  by (simp_all add: nlow_goat_milk slow_goat_milk flag_defs)

lemma nlow_goat_cheese:
  "nlow_of goat_cheese =
     [0x441, 0x430, 0x440, 0x44B, 0x20, 0x456, 0x440, 0x456, 0x43C, 0x448, 0x456, 0x43A, 0x20,
      0x28, 0x43A, 0x43E, 0x437, 0x44C, 0x435, 0x29]"
  by (simp add: nlow_of_def goat_cheese_def dict_get_def strip_eval py_lower_def lower_cp_eval)

lemma slow_goat_cheese: "slow_of goat_cheese = [0x43A, 0x43E, 0x437, 0x44C, 0x435]"
  by (simp add: slow_of_def goat_cheese_def dict_get_def strip_eval py_lower_def lower_cp_eval)

lemma flags_goat_cheese:
  "\<not> is_ayran (nlow_of goat_cheese)"
  "is_cheese (nlow_of goat_cheese)"
  "\<not> is_milk (nlow_of goat_cheese)"
  "goat (nlow_of goat_cheese) (slow_of goat_cheese)"
  by (simp_all add: nlow_goat_cheese slow_goat_cheese flag_defs)

lemma nlow_ayran: "nlow_of ayran = [0x430, 0x439, 0x440, 0x430, 0x43D]"
  by (simp add: nlow_of_def ayran_def dict_get_def strip_eval py_lower_def lower_cp_eval)

lemma slow_ayran: "slow_of ayran = [0x43A, 0x43E, 0x440, 0x43E, 0x432, 0x44C, 0x435]"
  by (simp add: slow_of_def ayran_def dict_get_def strip_eval py_lower_def lower_cp_eval)

lemma flags_ayran:
  "is_ayran (nlow_of ayran)"
  "\<not> is_cheese (nlow_of ayran)"
  "\<not> is_milk (nlow_of ayran)"
  "\<not> goat (nlow_of ayran) (slow_of ayran)"
  by (simp_all add: nlow_ayran slow_ayran flag_defs)

text \<open>
  C1. For every product, the derived step list contains the homogenization step if and
  only if the lower-cased, trimmed name carries the fermented-drink marker, or the milk
  marker without any goat marker in name or source, or a cheese marker without any goat
  marker. The markers are looked for as substrings (\<open>py_in_iff_sublist\<close>).
\<close>

theorem homogenization_iff:
  "''homogenization'' \<in> set (map step_id (product_steps prd)) \<longleftrightarrow>
     is_ayran (nlow_of prd) \<or>
     (is_milk (nlow_of prd) \<and> \<not> goat (nlow_of prd) (slow_of prd)) \<or>
     (is_cheese (nlow_of prd) \<and> \<not> goat (nlow_of prd) (slow_of prd))"
  unfolding product_steps_ids by simp

theorem homogenization_iff_witness:
  "is_cheese (nlow_of goat_cheese) \<and> goat (nlow_of goat_cheese) (slow_of goat_cheese) \<and>
   ''homogenization'' \<notin> set (map step_id (product_steps goat_cheese)) \<and>
   is_ayran (nlow_of ayran) \<and> ''homogenization'' \<in> set (map step_id (product_steps ayran))"
  using homogenization_iff [of goat_cheese] homogenization_iff [of ayran]
  by (simp add: flags_goat_cheese flags_ayran)

text \<open>
  C5. For every product, the derived step list is not empty, its first step has the
  identifier \<open>accept\<close>, and exactly one of its steps has the identifier
  \<open>pasteurization\<close>.
\<close>

theorem steps_start_and_pasteurization:
  "product_steps prd \<noteq> [] \<and>
   (\<exists>rest. product_steps prd = stage_accept # rest) \<and>
   step_id stage_accept = ''accept'' \<and>
   length (filter (\<lambda>st. step_id st = ''pasteurization'') (product_steps prd)) = 1"
  unfolding product_steps_unfold by (simp add: stage_ids)

text \<open>
  C6. For the product named "Moloko (kozye)" with source "kozye" the identifiers of the
  derived steps are, in order, accept, clarify, normalization, pasteurization, cooling,
  steril, label; homogenization is not among them.
\<close>

theorem goat_milk_steps:
  "map step_id (product_steps goat_milk) =
     [''accept'', ''clarify'', ''normalization'', ''pasteurization'', ''cooling'', ''steril'',
      ''label''] \<and>
   ''homogenization'' \<notin> set (map step_id (product_steps goat_milk))"
  unfolding product_steps_ids by (simp add: flags_goat_milk)

text \<open>
  C10. The tail, that is the steps after pasteurization, is chosen by priority: the
  fermented-drink marker wins whatever other markers the name has; without it a cheese
  marker wins, also over the milk marker; every other name, with or without the milk
  marker, gets the milk tail.
\<close>

theorem tail_priority:
  "(is_ayran (nlow_of prd) \<longrightarrow>
      tl (dropWhile (\<lambda>i. i \<noteq> ''pasteurization'') (map step_id (product_steps prd))) =
        [''cool_to_inoc'', ''inoculation'', ''fermentation'', ''salt'', ''mix_water'',
         ''mature'', ''label'']) \<and>
   (\<not> is_ayran (nlow_of prd) \<and> is_cheese (nlow_of prd) \<longrightarrow>
      tl (dropWhile (\<lambda>i. i \<noteq> ''pasteurization'') (map step_id (product_steps prd))) =
        [''prep_cheese'', ''rennet'', ''curd'', ''form'', ''press'', ''salt_dry'', ''ripen'',
         ''label'']) \<and>
   (\<not> is_ayran (nlow_of prd) \<and> \<not> is_cheese (nlow_of prd) \<longrightarrow>
      tl (dropWhile (\<lambda>i. i \<noteq> ''pasteurization'') (map step_id (product_steps prd))) =
        [''cooling'', ''steril'', ''label''])"
  unfolding product_steps_ids by simp

lemma nlow_milk_cheese_ayran:
  "nlow_of milk_cheese_ayran =
     [0x43C, 0x43E, 0x43B, 0x43E, 0x43A, 0x43E, 0x20, 0x441, 0x44B, 0x440, 0x20, 0x430, 0x439,
      0x440, 0x430, 0x43D]"
  by (simp add: nlow_of_def milk_cheese_ayran_def dict_get_def strip_eval py_lower_def
      lower_cp_eval)

lemma flags_milk_cheese_ayran:
  "is_ayran (nlow_of milk_cheese_ayran)"
  "is_cheese (nlow_of milk_cheese_ayran)"
  "is_milk (nlow_of milk_cheese_ayran)"
  by (simp_all add: nlow_milk_cheese_ayran flag_defs)

lemma nlow_cheese_milk:
  "nlow_of cheese_milk = [0x441, 0x44B, 0x440, 0x20, 0x43C, 0x43E, 0x43B, 0x43E, 0x43A, 0x43E]"
  by (simp add: nlow_of_def cheese_milk_def dict_get_def strip_eval py_lower_def lower_cp_eval)

lemma flags_cheese_milk:
  "\<not> is_ayran (nlow_of cheese_milk)"
  "is_cheese (nlow_of cheese_milk)"
  "is_milk (nlow_of cheese_milk)"
  by (simp_all add: nlow_cheese_milk flag_defs)

lemma nlow_kefir: "nlow_of kefir = [0x6B, 0x65, 0x66, 0x69, 0x72]"
  by (simp add: nlow_of_def kefir_def ascii_def dict_get_def strip_eval py_lower_def
      lower_cp_eval)

lemma flags_kefir:
  "\<not> is_ayran (nlow_of kefir)"
  "\<not> is_cheese (nlow_of kefir)"
  "\<not> is_milk (nlow_of kefir)"
  by (simp_all add: nlow_kefir flag_defs)

theorem tail_priority_witness:
  "is_ayran (nlow_of milk_cheese_ayran) \<and> is_cheese (nlow_of milk_cheese_ayran) \<and>
   is_milk (nlow_of milk_cheese_ayran) \<and>
   tl (dropWhile (\<lambda>i. i \<noteq> ''pasteurization'') (map step_id (product_steps milk_cheese_ayran))) =
     [''cool_to_inoc'', ''inoculation'', ''fermentation'', ''salt'', ''mix_water'', ''mature'',
      ''label''] \<and>
   \<not> is_ayran (nlow_of cheese_milk) \<and> is_cheese (nlow_of cheese_milk) \<and>
   is_milk (nlow_of cheese_milk) \<and>
   tl (dropWhile (\<lambda>i. i \<noteq> ''pasteurization'') (map step_id (product_steps cheese_milk))) =
     [''prep_cheese'', ''rennet'', ''curd'', ''form'', ''press'', ''salt_dry'', ''ripen'',
      ''label''] \<and>
   \<not> is_ayran (nlow_of kefir) \<and> \<not> is_cheese (nlow_of kefir) \<and> \<not> is_milk (nlow_of kefir) \<and>
   tl (dropWhile (\<lambda>i. i \<noteq> ''pasteurization'') (map step_id (product_steps kefir))) =
     [''cooling'', ''steril'', ''label'']"
  using tail_priority [of milk_cheese_ayran] tail_priority [of cheese_milk]
    tail_priority [of kefir]
  by (simp add: flags_milk_cheese_ayran flags_cheese_milk flags_kefir)

subsection \<open>The norm of the pasteurization step\<close>

lemma pasteurization_in_steps: "stage_pasteurization \<in> set (product_steps prd)"
  unfolding product_steps_unfold by simp

lemma pasteurization_step_unique:
  assumes "st \<in> set (product_steps prd)" and "step_id st = ''pasteurization''"
  shows "st = stage_pasteurization"
proof (rule ccontr)
  assume other: "st \<noteq> stage_pasteurization"
  from assms(1) other have "step_id st \<noteq> ''pasteurization''"
    unfolding product_steps_unfold by (auto simp add: stage_ids split: if_splits)
  with assms(2) show False by simp
qed

lemma pasteurization_norm:
  "step_norm stage_pasteurization =
     [''min'' \<mapsto> PInt 65, ''max'' \<mapsto> PInt 69, ''unit'' \<mapsto> PStr [0xB0, 0x43],
      ''note'' \<mapsto> PStr
        [0x41F, 0x430, 0x441, 0x442, 0x435, 0x440, 0x438, 0x437, 0x430, 0x446, 0x438, 0x44F,
         0x20, 0x441, 0x43E, 0x433, 0x43B, 0x430, 0x441, 0x43D, 0x43E, 0x20, 0x440, 0x435,
         0x446, 0x435, 0x43F, 0x442, 0x443, 0x440, 0x435, 0x2F, 0x413, 0x41E, 0x421, 0x422]]"
  by (simp add: stage_pasteurization_def stage_def)

text \<open>
  C4 as stated fails. With a configuration file that gives a norm of 80 to 85 degrees for
  the pasteurization process, the module-level norms hold that override, and with no file
  they hold the default of 72 to 75 degrees, yet the pasteurization step derived for the
  goat milk product carries a minimum of 65 in both cases.
\<close>

theorem pasteurization_override_counterexample:
  "load_norms (Some (Inr override_norms)) key_pasteurization = Some override_norm \<and>
   override_norm ''min'' = Some (PFloat 80) \<and>
   load_norms None key_pasteurization = default_norms key_pasteurization \<and>
   (\<exists>d. default_norms key_pasteurization = Some d \<and> d ''min'' = Some (PFloat 72)) \<and>
   stage_pasteurization \<in> set (product_steps goat_milk) \<and>
   step_id stage_pasteurization = ''pasteurization'' \<and>
   step_norm stage_pasteurization ''min'' = Some (PInt 65) \<and>
   load_norms (Some (Inr override_norms)) key_pasteurization
     \<noteq> Some (step_norm stage_pasteurization) \<and>
   load_norms None key_pasteurization \<noteq> Some (step_norm stage_pasteurization)"
proof -
  have a: "load_norms (Some (Inr override_norms)) key_pasteurization = Some override_norm"
    by (simp add: load_norms_def override_norms_def)
  have b: "override_norm ''min'' = Some (PFloat 80)"
    by (simp add: override_norm_def)
  have c: "load_norms None key_pasteurization = default_norms key_pasteurization"
    by (simp add: load_norms_def)
  have d: "\<exists>d. default_norms key_pasteurization = Some d \<and> d ''min'' = Some (PFloat 72)"
    by (simp add: default_norms_def key_pasteurization_def key_cooling_def
        key_fermentation_def)
  have e: "step_norm stage_pasteurization ''min'' = Some (PInt 65)"
    by (simp add: pasteurization_norm)
  have f: "override_norm \<noteq> step_norm stage_pasteurization"
  proof
    assume "override_norm = step_norm stage_pasteurization"
    then have "override_norm ''min'' = step_norm stage_pasteurization ''min''" by simp
    with b e show False by simp
  qed
  have g: "default_norms key_pasteurization \<noteq> Some (step_norm stage_pasteurization)"
  proof
    assume h: "default_norms key_pasteurization = Some (step_norm stage_pasteurization)"
    from d obtain m where "default_norms key_pasteurization = Some m"
      and "m ''min'' = Some (PFloat 72)" by blast
    with h e show False by simp
  qed
  from a b c d e f g show ?thesis
    by (simp add: pasteurization_in_steps stage_ids)
qed

text \<open>
  C4 as amended. For every product, a step of the derived list with the identifier
  \<open>pasteurization\<close> carries the literal norm of the source: minimum 65, maximum 69, unit
  degrees Celsius and the note "Pasterizatsiya soglasno retsepture/GOST". Step derivation
  takes the product alone, so no norms configuration and no entry of \<open>default_norms\<close>
  enters this norm.
\<close>

theorem pasteurization_norm_literal:
  "st \<in> set (product_steps prd) \<and> step_id st = ''pasteurization'' \<longrightarrow>
     step_norm st =
       [''min'' \<mapsto> PInt 65, ''max'' \<mapsto> PInt 69, ''unit'' \<mapsto> PStr [0xB0, 0x43],
        ''note'' \<mapsto> PStr
          [0x41F, 0x430, 0x441, 0x442, 0x435, 0x440, 0x438, 0x437, 0x430, 0x446, 0x438, 0x44F,
           0x20, 0x441, 0x43E, 0x433, 0x43B, 0x430, 0x441, 0x43D, 0x43E, 0x20, 0x440, 0x435,
           0x446, 0x435, 0x43F, 0x442, 0x443, 0x440, 0x435, 0x2F, 0x413, 0x41E, 0x421, 0x422]]"
  using pasteurization_step_unique [of st prd] pasteurization_norm by auto

theorem pasteurization_norm_literal_witness:
  "stage_pasteurization \<in> set (product_steps ayran) \<and>
   step_id stage_pasteurization = ''pasteurization'' \<and>
   step_norm stage_pasteurization ''min'' = Some (PInt 65) \<and>
   step_norm stage_pasteurization ''max'' = Some (PInt 69) \<and>
   step_norm stage_pasteurization ''unit'' = Some (PStr [0xB0, 0x43])"
  using pasteurization_norm_literal [of stage_pasteurization ayran]
  by (simp add: pasteurization_in_steps stage_ids)

section \<open>Evaluating the numeric parser\<close>

lemma isdigit_ascii: "0x30 \<le> c \<Longrightarrow> c \<le> 0x39 \<Longrightarrow> isdigit c"
  by (simp add: isdigit_def decimal_ranges_def)

lemma not_isdigit_below_0: "c < 0x30 \<Longrightarrow> \<not> isdigit c"
  by (simp add: isdigit_def decimal_ranges_def other_digit_ranges_def)

lemma not_isdigit_ascii_rest: "0x3A \<le> c \<Longrightarrow> c < 0xB2 \<Longrightarrow> \<not> isdigit c"
  by (simp add: isdigit_def decimal_ranges_def other_digit_ranges_def)

lemma not_isdigit_latin: "0xBA \<le> c \<Longrightarrow> c < 0x660 \<Longrightarrow> \<not> isdigit c"
  by (simp add: isdigit_def decimal_ranges_def other_digit_ranges_def)

lemmas isdigit_eval = isdigit_ascii not_isdigit_below_0 not_isdigit_ascii_rest not_isdigit_latin

lemma numeric_char_iff:
  "py_in [ch] (ascii ''.-+eE'') \<longleftrightarrow>
     ch = 0x2E \<or> ch = 0x2D \<or> ch = 0x2B \<or> ch = 0x65 \<or> ch = 0x45"
  by (auto simp add: ascii_def)

lemma lower_cp_times: "lower_cp 0xD7 = [0xD7]"
  by (simp add: lower_cp_def lower_table_def)

lemma double_limit_large: "2 ^ 64 \<le> double_limit"
  by (simp add: double_limit_def)

lemma to_double_small: "- (2 ^ 64) < q \<Longrightarrow> q < 2 ^ 64 \<Longrightarrow> to_double q = Fin q"
  using double_limit_large by (simp add: to_double_def)

lemma float_of_int_small: "- (2 ^ 64) < i \<Longrightarrow> i < 2 ^ 64 \<Longrightarrow> float_of_int i = Inr (Fin (of_int i))"
proof -
  assume a: "- (2 ^ 64) < i" and b: "i < 2 ^ 64"
  have "\<bar>of_int i :: rat\<bar> < 2 ^ 64"
  proof -
    from a b have "\<bar>i\<bar> < 2 ^ 64" by simp
    then have "(of_int \<bar>i\<bar> :: rat) < of_int (2 ^ 64)" by (simp only: of_int_less_iff)
    then show ?thesis by simp
  qed
  with double_limit_large show ?thesis by (simp add: float_of_int_def)
qed

lemmas parse_eval =
  isna.simps strip_eval py_lower_def lower_cp_eval lower_cp_times not_detected_def
  normalize_numeric_def ascii_def isdigit_eval numeric_char_iff

lemmas float_eval =
  py_float_def transform_decimal_and_space_def c_isspace_def c_isdigit_def strtod_def
  take_sign_def exponent_part_def digits_val_def decimal_value_of_def to_double_small
  parse_inf_or_nan_def ci_match_def c_tolower_def ascii_def

section \<open>Claims about \<open>parse_numeric\<close>\<close>

lemma clean_comma: "scan_numeric [] (normalize_numeric (py_strip (ascii ''1,5''))) = ascii ''1.5''"
  by (simp add: parse_eval)

lemma clean_blank:
  "scan_numeric [] (normalize_numeric (py_strip (ascii ''12 300''))) = ascii ''12300''"
  by (simp add: parse_eval)

lemma clean_power:
  "scan_numeric [] (normalize_numeric (py_strip [0x31, 0x2E, 0x32, 0xD7, 0x31, 0x30, 0x5E, 0x36]))
     = ascii ''1.2e6''"
  by (simp add: parse_eval)

lemma clean_tolerance:
  "scan_numeric [] (normalize_numeric (py_strip [0x35, 0x2E, 0x30, 0xB1, 0x30, 0x2E, 0x32]))
     = ascii ''5.0''"
  by (simp add: parse_eval)

lemma clean_letters: "scan_numeric [] (normalize_numeric (py_strip (ascii ''abc''))) = []"
  by (simp add: parse_eval)

lemma float_values:
  "py_float (ascii ''1.5'') = Inr (Fin (3 / 2))"
  "py_float (ascii ''12300'') = Inr (Fin 12300)"
  "py_float (ascii ''1.2e6'') = Inr (Fin 1200000)"
  "py_float (ascii ''5.0'') = Inr (Fin 5)"
  "py_float [] = Inl ValueError"
  by (simp_all add: float_eval)

lemma parse_numeric_string:
  "parse_numeric (CStr v) =
     (if py_strip v = [] \<or> py_in not_detected (py_lower (py_strip v)) then Inr NaN
      else case py_float (scan_numeric [] (normalize_numeric (py_strip v))) of
             Inl e \<Rightarrow> Inr NaN
           | Inr x \<Rightarrow> Inr x)"
  by (simp add: parse_numeric_def Let_def)

lemma parse_guard:
  "py_strip (ascii ''1,5'') \<noteq> [] \<and> \<not> py_in not_detected (py_lower (py_strip (ascii ''1,5'')))"
  "py_strip (ascii ''12 300'') \<noteq> [] \<and>
     \<not> py_in not_detected (py_lower (py_strip (ascii ''12 300'')))"
  "py_strip [0x31, 0x2E, 0x32, 0xD7, 0x31, 0x30, 0x5E, 0x36] \<noteq> [] \<and>
     \<not> py_in not_detected (py_lower (py_strip [0x31, 0x2E, 0x32, 0xD7, 0x31, 0x30, 0x5E, 0x36]))"
  "py_strip [0x35, 0x2E, 0x30, 0xB1, 0x30, 0x2E, 0x32] \<noteq> [] \<and>
     \<not> py_in not_detected (py_lower (py_strip [0x35, 0x2E, 0x30, 0xB1, 0x30, 0x2E, 0x32]))"
  "py_strip (ascii ''abc'') \<noteq> [] \<and> \<not> py_in not_detected (py_lower (py_strip (ascii ''abc'')))"
  by (simp_all add: parse_eval)

text \<open>
  C2. \<open>parse_numeric\<close> gives 1.5 on \<open>1,5\<close>, 12300 on \<open>12 300\<close>, 1200000 on 1.2 followed by
  the multiplication sign and \<open>10^6\<close>, 5 on 5.0 followed by the plus-minus sign and 0.2,
  the absent value NaN on \<open>abc\<close>, and 42 on the integer 42. All five numbers are doubles,
  so the float returned is the number itself.
\<close>

theorem parse_numeric_examples:
  "parse_numeric (CStr (ascii ''1,5'')) = Inr (Fin (3 / 2)) \<and>
   parse_numeric (CStr (ascii ''12 300'')) = Inr (Fin 12300) \<and>
   parse_numeric (CStr [0x31, 0x2E, 0x32, 0xD7, 0x31, 0x30, 0x5E, 0x36]) = Inr (Fin 1200000) \<and>
   parse_numeric (CStr [0x35, 0x2E, 0x30, 0xB1, 0x30, 0x2E, 0x32]) = Inr (Fin 5) \<and>
   parse_numeric (CStr (ascii ''abc'')) = Inr NaN \<and>
   parse_numeric (CInt 42) = Inr (Fin 42)"
proof -
  have "parse_numeric (CInt 42) = Inr (Fin 42)"
    by (simp add: parse_numeric_def float_of_int_small)
  then show ?thesis
    unfolding parse_numeric_string
    by (simp add: parse_guard clean_comma clean_blank clean_power clean_tolerance
        clean_letters float_values)
qed

text \<open>
  C8. On every string \<open>parse_numeric\<close> returns a float and raises nothing; when \<open>float\<close>
  raises on the cleaned string, the result is the absent value NaN.
\<close>

theorem parse_numeric_total:
  "(\<exists>f. parse_numeric (CStr v) = Inr f) \<and>
   (\<forall>e. py_float (scan_numeric [] (normalize_numeric (py_strip v))) = Inl e \<longrightarrow>
        parse_numeric (CStr v) = Inr NaN)"
  unfolding parse_numeric_string by (simp split: sum.splits)

theorem parse_numeric_total_witness:
  "py_float (scan_numeric [] (normalize_numeric (py_strip (ascii ''1e+'')))) = Inl ValueError \<and>
   parse_numeric (CStr (ascii ''1e+'')) = Inr NaN"
proof -
  have a: "scan_numeric [] (normalize_numeric (py_strip (ascii ''1e+''))) = ascii ''1e+''"
    by (simp add: parse_eval)
  have b: "py_float (ascii ''1e+'') = Inl ValueError"
    by (simp add: float_eval)
  from a b parse_numeric_total [of "ascii ''1e+''"] show ?thesis by simp
qed

subsection \<open>The multiplication sign followed by 10\<close>

lemma py_replace_absent: "p \<notin> set s \<Longrightarrow> py_replace (p # ps) new s = s"
  by (induction s) simp_all

lemma py_replace_skip:
  "p \<notin> set m \<Longrightarrow> py_replace (p # ps) new (m @ r) = m @ py_replace (p # ps) new r"
proof (induction m)
  case Nil
  then show ?case by simp
next
  case (Cons c cs)
  then have "c \<noteq> p" and "p \<notin> set cs" by auto
  with Cons.IH show ?case by simp
qed

lemma py_in_absent: "p \<notin> set s \<Longrightarrow> \<not> py_in (p # ps) s"
proof
  assume a: "p \<notin> set s" and "py_in (p # ps) s"
  then have "sublist (p # ps) s" by (simp add: py_in_iff_sublist)
  then have "set (p # ps) \<subseteq> set s" by (rule set_mono_sublist)
  with a show False by simp
qed

lemma split_head_absent: "p \<notin> set s \<Longrightarrow> split_head (p # ps) s = s"
  by (induction s) simp_all

lemma digits_range: "list_all c_isdigit m \<Longrightarrow> c \<in> set m \<Longrightarrow> 0x30 \<le> c \<and> c \<le> 0x39"
  by (simp add: list_all_iff c_isdigit_def)

lemma digits_exclude:
  assumes "list_all c_isdigit m" and "c < 0x30 \<or> 0x39 < c"
  shows "c \<notin> set m"
proof
  assume "c \<in> set m"
  with assms(1) have "0x30 \<le> c \<and> c \<le> 0x39" by (rule digits_range)
  with assms(2) show False by simp
qed

lemma digits_no_prefix:
  assumes "list_all c_isdigit k" and "c < 0x30 \<or> 0x39 < c"
  shows "\<not> prefix (c # cs) k"
proof
  assume "prefix (c # cs) k"
  then have "set (c # cs) \<subseteq> set k" by (rule set_mono_prefix)
  moreover from assms have "c \<notin> set k" by (rule digits_exclude)
  ultimately show False by simp
qed

text \<open>Strings that \<open>strip\<close> and \<open>lower\<close> leave as they are.\<close>

lemma py_strip_no_edge:
  assumes "s \<noteq> []" and "\<not> isspace (hd s)" and "\<not> isspace (last s)"
  shows "py_strip s = s"
proof -
  from assms(1,2) have front: "dropWhile isspace s = s"
    by (cases s) simp_all
  from assms(1,3) have "dropWhile isspace (rev s) = rev s"
    by (cases "rev s") (simp_all add: hd_rev [symmetric] del: hd_rev)
  with front show ?thesis by (simp add: py_strip_def)
qed

lemma py_lower_fixed: "list_all (\<lambda>c. lower_cp c = [c]) s \<Longrightarrow> py_lower s = s"
  by (induction s) (simp_all add: py_lower_def)

lemma digit_not_space: "c_isdigit c \<Longrightarrow> \<not> isspace c"
  by (simp add: c_isdigit_def not_isspace_ascii)

lemma digit_lower: "c_isdigit c \<Longrightarrow> lower_cp c = [c]"
  by (simp add: c_isdigit_def lower_cp_below_A)

lemma digits_lower: "list_all c_isdigit m \<Longrightarrow> list_all (\<lambda>c. lower_cp c = [c]) m"
  by (simp add: list_all_iff digit_lower)

text \<open>
  The guard of \<open>parse_numeric\<close> on a text that starts with ASCII digits \<open>m\<close>, goes on with
  characters \<open>r\<close> that are not Cyrillic and that \<open>lower\<close> keeps, and ends with a character
  that is not white space.
\<close>

lemma parse_guard_digits:
  assumes m: "m \<noteq> []" "list_all c_isdigit m"
    and r: "list_all (\<lambda>c. lower_cp c = [c]) r" "0x43D \<notin> set r" "\<not> isspace (last (m @ r))"
  shows "py_strip (m @ r) = m @ r"
    and "\<not> py_in not_detected (py_lower (py_strip (m @ r)))"
proof -
  from m have "\<not> isspace (hd (m @ r))"
    by (cases m) (simp_all add: digit_not_space)
  with m(1) r(3) show strip: "py_strip (m @ r) = m @ r"
    by (simp add: py_strip_no_edge)
  from m(2) r(1) have low: "py_lower (m @ r) = m @ r"
    by (simp add: py_lower_fixed digits_lower)
  from m(2) have "0x43D \<notin> set m" by (simp add: digits_exclude)
  with r(2) have "0x43D \<notin> set (m @ r)" by simp
  then have "\<not> py_in not_detected (m @ r)"
    unfolding not_detected_def by (rule py_in_absent)
  with strip low show "\<not> py_in not_detected (py_lower (py_strip (m @ r)))" by simp
qed

text \<open>The replacements pass over leading digits, and leave a run of digits alone.\<close>

lemma normalize_digits_prefix:
  assumes "list_all c_isdigit m"
  shows "normalize_numeric (m @ r) = m @ normalize_numeric r"
proof -
  have no: "0x20 \<notin> set m" "0x2C \<notin> set m" "0xD7 \<notin> set m" "0x78 \<notin> set m" "0xB1 \<notin> set m"
    using assms by (simp_all add: digits_exclude)
  have split: "split_head [0xB1] (m @ s) = m @ split_head [0xB1] s" for s
    using no(5) by (induction m) simp_all
  have isin: "py_in [0xB1] (m @ s) = py_in [0xB1] s" for s
    using no(5) by (induction m) simp_all
  show ?thesis
    unfolding normalize_numeric_def Let_def
    using no by (simp add: py_replace_skip ascii_def split isin)
qed

lemma normalize_digits:
  assumes "list_all c_isdigit k"
  shows "normalize_numeric k = k"
proof -
  have no: "0x20 \<notin> set k" "0x2C \<notin> set k" "0xD7 \<notin> set k" "0x78 \<notin> set k" "0xB1 \<notin> set k"
    using assms by (simp_all add: digits_exclude)
  then show ?thesis
    unfolding normalize_numeric_def Let_def
    by (simp add: py_replace_absent ascii_def py_in_absent)
qed

lemma normalize_idioms:
  assumes "list_all c_isdigit k"
  shows "normalize_numeric ([0xD7, 0x31, 0x30, 0x5E] @ k) = 0x65 # k"
    and "normalize_numeric (ascii ''x10^'' @ k) = 0x65 # k"
    and "normalize_numeric ([0xD7, 0x31, 0x30] @ k) = 0x65 # k"
    and "normalize_numeric (ascii ''x10'' @ k) = 0x65 # k"
    and "\<not> prefix [0x31, 0x30] k \<Longrightarrow> normalize_numeric ([0xD7] @ k) = k"
proof -
  have no: "0x20 \<notin> set k" "0x2C \<notin> set k" "0xD7 \<notin> set k" "0x78 \<notin> set k" "0xB1 \<notin> set k"
    using assms by (simp_all add: digits_exclude)
  have caret: "\<not> prefix [0x5E] k"
    using assms by (simp add: digits_no_prefix)
  show "normalize_numeric ([0xD7, 0x31, 0x30, 0x5E] @ k) = 0x65 # k"
    unfolding normalize_numeric_def Let_def
    using no by (simp add: py_replace_absent ascii_def py_in_absent)
  show "normalize_numeric (ascii ''x10^'' @ k) = 0x65 # k"
    unfolding normalize_numeric_def Let_def
    using no by (simp add: py_replace_absent ascii_def py_in_absent)
  show "normalize_numeric ([0xD7, 0x31, 0x30] @ k) = 0x65 # k"
    unfolding normalize_numeric_def Let_def
    using no caret by (simp add: py_replace_absent ascii_def py_in_absent)
  show "normalize_numeric (ascii ''x10'' @ k) = 0x65 # k"
    unfolding normalize_numeric_def Let_def
    using no caret by (simp add: py_replace_absent ascii_def py_in_absent)
  show "normalize_numeric ([0xD7] @ k) = k" if ten: "\<not> prefix [0x31, 0x30] k"
  proof -
    have "\<not> prefix [0x31, 0x30, 0x5E] k"
    proof
      assume "prefix [0x31, 0x30, 0x5E] k"
      moreover have "prefix [0x31, 0x30] [0x31, 0x30, 0x5E :: nat]" by simp
      ultimately have "prefix [0x31, 0x30] k" by (rule prefix_order.trans [rotated])
      with ten show False by simp
    qed
    with ten show ?thesis
      unfolding normalize_numeric_def Let_def
      using no by (simp add: py_replace_absent ascii_def py_in_absent)
  qed
qed

lemma scan_numeric_digits:
  "list_all c_isdigit m \<Longrightarrow> scan_numeric acc (m @ r) = scan_numeric (acc @ m) r"
proof (induction m arbitrary: acc)
  case Nil
  then show ?case by simp
next
  case (Cons c cs)
  then have "isdigit c" by (simp add: c_isdigit_def isdigit_ascii)
  with Cons show ?case by simp
qed

lemma scan_numeric_exponent:
  assumes "list_all c_isdigit m" and "list_all c_isdigit k"
  shows "scan_numeric [] (m @ 0x65 # k) = m @ 0x65 # k"
proof -
  have "scan_numeric [] (m @ 0x65 # k) = scan_numeric m (0x65 # k)"
    using assms(1) scan_numeric_digits [of m "[]" "0x65 # k"] by simp
  also have "\<dots> = scan_numeric (m @ [0x65]) (k @ [])"
    by (simp add: numeric_char_iff)
  also have "\<dots> = (m @ [0x65]) @ k"
    using assms(2) by (simp only: scan_numeric_digits scan_numeric.simps)
  finally show ?thesis by simp
qed

lemma scan_numeric_all_digits:
  assumes "list_all c_isdigit d"
  shows "scan_numeric [] d = d"
  using assms scan_numeric_digits [of d "[]" "[]"] by simp

text \<open>\<open>float\<close> of digits, of digits with an exponent, and of digits with a bare \<open>e\<close>.\<close>

lemma py_float_plain:
  assumes s: "s \<noteq> []" "list_all (\<lambda>c. c < 128) s" "\<not> c_isspace (hd s)" "\<not> c_isspace (last s)"
    "0x5F \<notin> set s"
  shows "py_float s =
     (case strtod s of
        Some (neg, m, fl, ex, rest) \<Rightarrow>
          if rest = [] then Inr (to_double (decimal_value_of neg m fl ex)) else Inl ValueError
      | None \<Rightarrow>
          (case parse_inf_or_nan s of
             Some (f, rest) \<Rightarrow> if rest = [] then Inr f else Inl ValueError
           | None \<Rightarrow> Inl ValueError))"
proof -
  from s(1,3) have front: "dropWhile c_isspace s = s" by (cases s) simp_all
  from s(1,4) have "dropWhile c_isspace (rev s) = rev s"
    by (cases "rev s") (simp_all add: hd_rev [symmetric] del: hd_rev)
  with front have strip: "rev (dropWhile c_isspace (rev (dropWhile c_isspace s))) = s" by simp
  show ?thesis
    unfolding py_float_def transform_decimal_and_space_def Let_def
    by (simp only: s(2) if_True strip s(5) if_False option.case)
qed

lemma digits_ascii: "list_all c_isdigit m \<Longrightarrow> list_all (\<lambda>c. c < 128) m"
  by (auto simp add: list_all_iff c_isdigit_def)

lemma digits_hd:
  assumes "m \<noteq> []" and "list_all c_isdigit m"
  shows "\<not> c_isspace (hd (m @ r))" and "take_sign (m @ r) = (False, m @ r)"
proof -
  obtain c cs where m: "m = c # cs" using assms(1) by (cases m) auto
  with assms(2) have c: "0x30 \<le> c \<and> c \<le> 0x39" by (simp add: c_isdigit_def)
  then show "\<not> c_isspace (hd (m @ r))" by (simp add: m c_isspace_def)
  from c show "take_sign (m @ r) = (False, m @ r)" by (simp add: take_sign_def m)
qed

lemma digit_last_not_space:
  assumes "k \<noteq> []" and "list_all c_isdigit k"
  shows "\<not> c_isspace (last (s @ k))" and "\<not> isspace (last (s @ k))"
proof -
  from assms have "c_isdigit (last k)" by (simp add: list_all_iff)
  then have "0x30 \<le> last k \<and> last k \<le> 0x39" by (simp add: c_isdigit_def)
  with assms(1) show "\<not> c_isspace (last (s @ k))" and "\<not> isspace (last (s @ k))"
    by (simp_all add: c_isspace_def not_isspace_ascii)
qed

lemma py_float_digits:
  assumes "d \<noteq> []" and "list_all c_isdigit d"
  shows "py_float d = Inr (to_double (of_nat (digits_val d)))"
proof -
  have ascii_only: "list_all (\<lambda>c. c < 128) d"
    using assms(2) by (rule digits_ascii)
  have front: "\<not> c_isspace (hd d)" and sign: "take_sign d = (False, d)"
    using digits_hd [of d "[]"] assms by simp_all
  have last: "\<not> c_isspace (last d)"
    using digit_last_not_space(1) [of d "[]"] assms by simp
  have under: "0x5F \<notin> set d"
    using assms(2) by (simp add: digits_exclude)
  have tw: "takeWhile c_isdigit d = d" and dw: "dropWhile c_isdigit d = []"
    using assms(2) by (simp_all add: list_all_iff)
  have "strtod d = Some (False, digits_val d, 0, 0, [])"
    unfolding strtod_def by (simp add: sign tw dw assms(1) exponent_part_def)
  then show ?thesis
    unfolding py_float_plain [OF assms(1) ascii_only front last under]
    by (simp add: decimal_value_of_def)
qed

lemma py_float_exponent:
  assumes "m \<noteq> []" and "list_all c_isdigit m" and "k \<noteq> []" and "list_all c_isdigit k"
  shows "py_float (m @ 0x65 # k) = Inr (to_double (of_nat (digits_val m) * 10 ^ digits_val k))"
proof -
  have ne: "m @ 0x65 # k \<noteq> []" by simp
  have ascii_only: "list_all (\<lambda>c. c < 128) (m @ 0x65 # k)"
    using digits_ascii [OF assms(2)] digits_ascii [OF assms(4)] by simp
  have front: "\<not> c_isspace (hd (m @ 0x65 # k))"
    and sign: "take_sign (m @ 0x65 # k) = (False, m @ 0x65 # k)"
    using digits_hd [of m "0x65 # k"] assms(1,2) by simp_all
  have last: "\<not> c_isspace (last (m @ 0x65 # k))"
    using digit_last_not_space(1) [of k "m @ [0x65]"] assms(3,4) by simp
  have under: "0x5F \<notin> set (m @ 0x65 # k)"
    using assms(2,4) by (simp add: digits_exclude)
  have ksign: "take_sign k = (False, k)"
    using digits_hd(2) [of k "[]"] assms(3,4) by simp
  have tw: "takeWhile c_isdigit (m @ 0x65 # k) = m"
    using assms(2) by (simp add: takeWhile_tail c_isdigit_def list_all_iff)
  have dw: "dropWhile c_isdigit (m @ 0x65 # k) = 0x65 # k"
    using assms(2) by (simp add: dropWhile_append3 c_isdigit_def list_all_iff)
  have ktw: "takeWhile c_isdigit k = k" and kdw: "dropWhile c_isdigit k = []"
    using assms(4) by (simp_all add: list_all_iff)
  have ex: "exponent_part (0x65 # k) = (int (digits_val k), [])"
    by (simp add: exponent_part_def ksign ktw kdw assms(3))
  have "strtod (m @ 0x65 # k) = Some (False, digits_val m, 0, int (digits_val k), [])"
    unfolding strtod_def by (simp add: sign tw dw ex assms(1))
  then show ?thesis
    unfolding py_float_plain [OF ne ascii_only front last under]
    by (simp add: decimal_value_of_def)
qed

lemma py_float_bare_e:
  assumes "m \<noteq> []" and "list_all c_isdigit m"
  shows "py_float (m @ [0x65]) = Inl ValueError"
proof -
  have ne: "m @ [0x65] \<noteq> []" by simp
  have ascii_only: "list_all (\<lambda>c. c < 128) (m @ [0x65])"
    using digits_ascii [OF assms(2)] by simp
  have front: "\<not> c_isspace (hd (m @ [0x65]))"
    and sign: "take_sign (m @ [0x65]) = (False, m @ [0x65])"
    using digits_hd [of m "[0x65]"] assms by simp_all
  have last: "\<not> c_isspace (last (m @ [0x65]))" by (simp add: c_isspace_def)
  have under: "0x5F \<notin> set (m @ [0x65])"
    using assms(2) by (simp add: digits_exclude)
  have tw: "takeWhile c_isdigit (m @ [0x65]) = m"
    using assms(2) by (simp add: takeWhile_tail c_isdigit_def list_all_iff)
  have dw: "dropWhile c_isdigit (m @ [0x65]) = [0x65]"
    using assms(2) by (simp add: dropWhile_append3 c_isdigit_def list_all_iff)
  have ex: "exponent_part [0x65] = (0, [0x65])"
    by (simp add: exponent_part_def take_sign_def)
  have "strtod (m @ [0x65]) = Some (False, digits_val m, 0, 0, [0x65])"
    unfolding strtod_def by (simp add: sign tw dw ex assms(1))
  then show ?thesis
    unfolding py_float_plain [OF ne ascii_only front last under] by simp
qed

text \<open>
  C3 as stated fails: the text 2, multiplication sign, 10 is cleaned to \<open>2e\<close>, which is not
  a float literal, and the result is the absent value.
\<close>

theorem times_ten_counterexample:
  "scan_numeric [] (normalize_numeric (py_strip [0x32, 0xD7, 0x31, 0x30])) = ascii ''2e'' \<and>
   py_float (ascii ''2e'') = Inl ValueError \<and>
   parse_numeric (CStr [0x32, 0xD7, 0x31, 0x30]) = Inr NaN"
proof -
  have a: "scan_numeric [] (normalize_numeric (py_strip [0x32, 0xD7, 0x31, 0x30])) = ascii ''2e''"
    by (simp add: parse_eval)
  have b: "py_float (ascii ''2e'') = Inl ValueError"
    by (simp add: float_eval)
  have c: "py_strip [0x32, 0xD7, 0x31, 0x30] \<noteq> [] \<and>
      \<not> py_in not_detected (py_lower (py_strip [0x32, 0xD7, 0x31, 0x30]))"
    by (simp add: parse_eval)
  from a b c show ?thesis unfolding parse_numeric_string by simp
qed

lemma isdigit_superscript_three: "isdigit 0xB3"
  by (simp add: isdigit_def other_digit_ranges_def)

lemma superscript_exponent_absent:
  "parse_numeric (CStr [0x32, 0xD7, 0x31, 0x30, 0xB3]) = Inr NaN"
proof -
  have a: "scan_numeric [] (normalize_numeric (py_strip [0x32, 0xD7, 0x31, 0x30, 0xB3]))
      = [0x32, 0x65, 0xB3]"
    by (simp add: parse_eval isspace_iff isdigit_superscript_three)
  have "decimal_value 0xB3 = None"
    by (simp add: decimal_value_def decimal_ranges_def)
  then have t: "transform_decimal_and_space [0x32, 0x65, 0xB3] = [0x32, 0x65, 0x3F]"
    by (simp add: transform_decimal_and_space_def isspace_iff)
  have b: "py_float [0x32, 0x65, 0xB3] = Inl ValueError"
    unfolding py_float_def t by (simp add: float_eval)
  have c: "py_strip [0x32, 0xD7, 0x31, 0x30, 0xB3] \<noteq> [] \<and>
      \<not> py_in not_detected (py_lower (py_strip [0x32, 0xD7, 0x31, 0x30, 0xB3]))"
    by (simp add: parse_eval isspace_iff)
  from a b c show ?thesis unfolding parse_numeric_string by simp
qed

text \<open>
  The parse of a text that starts with ASCII digits \<open>m\<close> and goes on with \<open>r\<close>, once the
  guard is passed: the digits stay, the rest is normalized.
\<close>

lemma parse_numeric_digits_then:
  assumes m: "m \<noteq> []" "list_all c_isdigit m"
    and r: "list_all (\<lambda>c. lower_cp c = [c]) r" "0x43D \<notin> set r" "\<not> isspace (last (m @ r))"
  shows "parse_numeric (CStr (m @ r)) =
     (case py_float (scan_numeric [] (m @ normalize_numeric r)) of
        Inl e \<Rightarrow> Inr NaN
      | Inr x \<Rightarrow> Inr x)"
proof -
  have "py_strip (m @ r) = m @ r"
    and "\<not> py_in not_detected (py_lower (py_strip (m @ r)))"
    using m r by (rule parse_guard_digits)+
  then show ?thesis
    unfolding parse_numeric_string using m by (simp add: normalize_digits_prefix)
qed

text \<open>
  C3 as amended. The idioms are rewritten to the exponent marker \<open>e\<close>: for non-empty runs
  \<open>m\<close> and \<open>k\<close> of ASCII digits, \<open>m\<close> followed by the multiplication sign or the letter x,
  then \<open>10^\<close> or \<open>10\<close>, then \<open>k\<close>, parses to the float of \<open>m\<close> times ten to the power \<open>k\<close>. A
  bare multiplication sign is dropped: \<open>m\<close>, the sign and \<open>k\<close> parse as the float of the
  digits \<open>m\<close> followed by \<open>k\<close>, when \<open>k\<close> does not start with 10. With nothing after the 10
  the text is cleaned to \<open>m\<close> and a bare \<open>e\<close> and the result is absent, and so it is for an
  exponent written as a superscript (2, multiplication sign, 10, superscript three).
\<close>

theorem times_ten_idioms:
  "(m \<noteq> [] \<and> list_all c_isdigit m \<and> k \<noteq> [] \<and> list_all c_isdigit k \<longrightarrow>
      parse_numeric (CStr (m @ [0xD7, 0x31, 0x30, 0x5E] @ k))
        = Inr (to_double (of_nat (digits_val m) * 10 ^ digits_val k)) \<and>
      parse_numeric (CStr (m @ ascii ''x10^'' @ k))
        = Inr (to_double (of_nat (digits_val m) * 10 ^ digits_val k)) \<and>
      parse_numeric (CStr (m @ [0xD7, 0x31, 0x30] @ k))
        = Inr (to_double (of_nat (digits_val m) * 10 ^ digits_val k)) \<and>
      parse_numeric (CStr (m @ ascii ''x10'' @ k))
        = Inr (to_double (of_nat (digits_val m) * 10 ^ digits_val k))) \<and>
   (m \<noteq> [] \<and> list_all c_isdigit m \<and> k \<noteq> [] \<and> list_all c_isdigit k \<and>
    \<not> prefix [0x31, 0x30] k \<longrightarrow>
      parse_numeric (CStr (m @ [0xD7] @ k)) = Inr (to_double (of_nat (digits_val (m @ k))))) \<and>
   (m \<noteq> [] \<and> list_all c_isdigit m \<longrightarrow>
      parse_numeric (CStr (m @ [0xD7, 0x31, 0x30])) = Inr NaN \<and>
      parse_numeric (CStr (m @ ascii ''x10'')) = Inr NaN) \<and>
   parse_numeric (CStr [0x32, 0xD7, 0x31, 0x30, 0xB3]) = Inr NaN"
proof -
  have keep: "list_all (\<lambda>c. lower_cp c = [c]) [0xD7, 0x31, 0x30, 0x5E, 0x78]"
    by (simp add: lower_cp_times lower_cp_below_A lower_cp_ascii_rest)
  have exponent: "parse_numeric (CStr (m @ r @ k))
      = Inr (to_double (of_nat (digits_val m) * 10 ^ digits_val k))"
    if m: "m \<noteq> []" "list_all c_isdigit m" and k: "k \<noteq> []" "list_all c_isdigit k"
      and r: "set r \<subseteq> {0xD7, 0x31, 0x30, 0x5E, 0x78}"
      and n: "normalize_numeric (r @ k) = 0x65 # k" for r
  proof -
    from keep r have "list_all (\<lambda>c. lower_cp c = [c]) r"
      by (auto simp add: list_all_iff)
    with k(2) have low: "list_all (\<lambda>c. lower_cp c = [c]) (r @ k)"
      by (simp add: digits_lower)
    from r k(2) have cyr: "0x43D \<notin> set (r @ k)"
      by (auto simp add: digits_exclude)
    have last: "\<not> isspace (last (m @ r @ k))"
      using digit_last_not_space(2) [of k "m @ r"] k by simp
    have "parse_numeric (CStr (m @ r @ k)) =
        (case py_float (scan_numeric [] (m @ normalize_numeric (r @ k))) of
           Inl e \<Rightarrow> Inr NaN
         | Inr x \<Rightarrow> Inr x)"
      using m low cyr last by (rule parse_numeric_digits_then)
    with m k show ?thesis
      by (simp add: n scan_numeric_exponent py_float_exponent)
  qed
  have bare: "parse_numeric (CStr (m @ [0xD7] @ k)) = Inr (to_double (of_nat (digits_val (m @ k))))"
    if m: "m \<noteq> []" "list_all c_isdigit m" and k: "k \<noteq> []" "list_all c_isdigit k"
      and ten: "\<not> prefix [0x31, 0x30] k"
  proof -
    from k(2) have low: "list_all (\<lambda>c. lower_cp c = [c]) ([0xD7] @ k)"
      by (simp add: digits_lower lower_cp_times)
    from k(2) have cyr: "0x43D \<notin> set ([0xD7] @ k)"
      by (simp add: digits_exclude)
    have last: "\<not> isspace (last (m @ [0xD7] @ k))"
      using digit_last_not_space(2) [of k "m @ [0xD7]"] k by simp
    have "parse_numeric (CStr (m @ [0xD7] @ k)) =
        (case py_float (scan_numeric [] (m @ normalize_numeric ([0xD7] @ k))) of
           Inl e \<Rightarrow> Inr NaN
         | Inr x \<Rightarrow> Inr x)"
      using m low cyr last by (rule parse_numeric_digits_then)
    moreover have "normalize_numeric ([0xD7] @ k) = k"
      using k(2) ten by (rule normalize_idioms(5))
    moreover from m k have "m @ k \<noteq> []" and "list_all c_isdigit (m @ k)" by simp_all
    ultimately show ?thesis
      by (simp add: scan_numeric_all_digits py_float_digits)
  qed
  have absent: "parse_numeric (CStr (m @ r)) = Inr NaN"
    if m: "m \<noteq> []" "list_all c_isdigit m"
      and r: "r = [0xD7, 0x31, 0x30] \<or> r = ascii ''x10''" for r
  proof -
    from r have low: "list_all (\<lambda>c. lower_cp c = [c]) r"
      by (auto simp add: ascii_def lower_cp_times lower_cp_below_A lower_cp_ascii_rest)
    from r have cyr: "0x43D \<notin> set r" by (auto simp add: ascii_def)
    from r have last: "\<not> isspace (last (m @ r))"
      by (auto simp add: ascii_def not_isspace_ascii)
    have "parse_numeric (CStr (m @ r)) =
        (case py_float (scan_numeric [] (m @ normalize_numeric r)) of
           Inl e \<Rightarrow> Inr NaN
         | Inr x \<Rightarrow> Inr x)"
      using m low cyr last by (rule parse_numeric_digits_then)
    moreover have "normalize_numeric r = [0x65]"
      using r normalize_idioms(3,4) [of "[]"] by auto
    moreover have "scan_numeric [] (m @ [0x65]) = m @ [0x65]"
      using scan_numeric_exponent [of m "[]"] m by simp
    ultimately show ?thesis
      using m by (simp add: py_float_bare_e)
  qed
  have sets: "set [0xD7, 0x31, 0x30, 0x5E] \<subseteq> {0xD7, 0x31, 0x30, 0x5E, 0x78 :: nat}"
    "set (ascii ''x10^'') \<subseteq> {0xD7, 0x31, 0x30, 0x5E, 0x78 :: nat}"
    "set [0xD7, 0x31, 0x30] \<subseteq> {0xD7, 0x31, 0x30, 0x5E, 0x78 :: nat}"
    "set (ascii ''x10'') \<subseteq> {0xD7, 0x31, 0x30, 0x5E, 0x78 :: nat}"
    by (simp_all add: ascii_def)
  show ?thesis
    using exponent [OF _ _ _ _ sets(1) normalize_idioms(1)]
      exponent [OF _ _ _ _ sets(2) normalize_idioms(2)]
      exponent [OF _ _ _ _ sets(3) normalize_idioms(3)]
      exponent [OF _ _ _ _ sets(4) normalize_idioms(4)]
      bare absent superscript_exponent_absent
    by blast
qed

theorem times_ten_idioms_witness:
  "[0x31, 0x32] \<noteq> [] \<and> list_all c_isdigit [0x31, 0x32] \<and> [0x33] \<noteq> [] \<and>
   list_all c_isdigit [0x33] \<and> \<not> prefix [0x31, 0x30] [0x33 :: nat] \<and>
   parse_numeric (CStr ([0x31, 0x32] @ [0xD7, 0x31, 0x30, 0x5E] @ [0x33])) = Inr (Fin 12000) \<and>
   parse_numeric (CStr ([0x31, 0x32] @ ascii ''x10^'' @ [0x33])) = Inr (Fin 12000) \<and>
   parse_numeric (CStr ([0x31, 0x32] @ [0xD7, 0x31, 0x30] @ [0x33])) = Inr (Fin 12000) \<and>
   parse_numeric (CStr ([0x31, 0x32] @ ascii ''x10'' @ [0x33])) = Inr (Fin 12000) \<and>
   parse_numeric (CStr ([0x31, 0x32] @ [0xD7] @ [0x33])) = Inr (Fin 123) \<and>
   parse_numeric (CStr ([0x31, 0x32] @ [0xD7, 0x31, 0x30])) = Inr NaN \<and>
   parse_numeric (CStr ([0x31, 0x32] @ ascii ''x10'')) = Inr NaN"
proof -
  have d: "list_all c_isdigit [0x31, 0x32]" "list_all c_isdigit [0x33]"
    by (simp_all add: c_isdigit_def)
  have v: "to_double (of_nat (digits_val [0x31, 0x32]) * 10 ^ digits_val [0x33]) = Fin 12000"
    "to_double (of_nat (digits_val ([0x31, 0x32] @ [0x33]))) = Fin 123"
    by (simp_all add: digits_val_def to_double_small)
  from d v times_ten_idioms [of "[0x31, 0x32]" "[0x33]"] show ?thesis
    by simp
qed

section \<open>Claims about \<open>to_intlike\<close>\<close>

text \<open>
  What the cast does when it returns: the result is a nullable column, an integer column
  keeps every integer, and a float column is cast cell by cell, a missing cell to
  \<open>pd.NA\<close>.
\<close>

lemma astype_Int64_nullable:
  "astype_Int64 obj_cast c = Inr r \<Longrightarrow> \<exists>ws. r = NullableCol ws"
  by (cases c) (auto simp add: astype_Int64_def split: sum.splits)

lemma astype_Int64_integers:
  "astype_Int64 obj_cast (Int64Col ws) = Inr (NullableCol (map Some ws))"
  by (simp add: astype_Int64_def)

lemma astype_float_cells: "astype_float fs = Inr ws \<Longrightarrow> ws = map cast_cell fs"
  by (auto simp add: astype_float_def split: pyfloat.splits if_splits)

lemma cast_missing: "cast_cell NaN = None"
  by simp

lemma to_intlike_nullable:
  "df col = Some (NullableCol ws) \<Longrightarrow> to_intlike obj_num obj_cast df col = Inr df"
proof -
  assume c: "df col = Some (NullableCol ws)"
  then have "df(col \<mapsto> NullableCol ws) = df" by (simp add: fun_upd_idem)
  with c show ?thesis
    by (simp add: to_intlike_def to_numeric_coerce_def astype_Int64_def)
qed

text \<open>
  C7 fails on the code. For the products table whose \<open>product_id\<close> column holds 1.0 and
  1.5, \<open>to_numeric\<close> keeps the two numbers and the cast to \<open>Int64\<close> raises \<open>TypeError\<close>: the
  cell 1.5 does not become the no-value marker.
\<close>

theorem to_intlike_raises_on_fraction:
  "to_intlike obj_num obj_cast fractional_ids ''product_id'' = Inl TypeError"
proof -
  have m: "nanmax [Fin 1, Fin (3 / 2)] = Fin (3 / 2)"
    by (simp add: nanmax_def)
  have "\<lfloor>3 / 2 :: rat\<rfloor> = 1" by (simp add: floor_eq_iff)
  then have "astype_float [Fin 1, Fin (3 / 2)] = Inl TypeError"
    by (simp add: astype_float_def m)
  then show ?thesis
    by (simp add: to_intlike_def fractional_ids_def to_numeric_coerce_def astype_Int64_def)
qed

text \<open>
  C9. Identifier coercion is idempotent: coercing the column of the coerced table again
  gives the same table, and where the first coercion raises, so does the sequence of two.
\<close>

theorem to_intlike_idempotent:
  "(case to_intlike obj_num obj_cast df col of
      Inl e \<Rightarrow> Inl e
    | Inr d \<Rightarrow> to_intlike obj_num obj_cast d col)
     = to_intlike obj_num obj_cast df col"
proof (cases "to_intlike obj_num obj_cast df col")
  case (Inl e)
  then show ?thesis by simp
next
  case (Inr d)
  show ?thesis
  proof (cases "df col")
    case None
    with Inr have "d = df" by (simp add: to_intlike_def)
    with Inr show ?thesis by simp
  next
    case (Some c)
    with Inr obtain n r where n: "to_numeric_coerce obj_num c = Inr n"
      and r: "astype_Int64 obj_cast n = Inr r" and d: "d = df(col \<mapsto> r)"
      by (auto simp add: to_intlike_def split: sum.splits)
    from r obtain ws where "r = NullableCol ws"
      using astype_Int64_nullable by blast
    with d have "d col = Some (NullableCol ws)" by simp
    then have "to_intlike obj_num obj_cast d col = Inr d" by (rule to_intlike_nullable)
    with Inr show ?thesis by simp
  qed
qed

theorem to_intlike_idempotent_witness:
  "to_intlike (\<lambda>cells. Inr (ObjectCol cells)) (\<lambda>cells. Inl TypeError) mixed_ids ''sample_id''
     = Inr [''sample_id'' \<mapsto> NullableCol [Some 7, None, Some 3]] \<and>
   to_intlike (\<lambda>cells. Inr (ObjectCol cells)) (\<lambda>cells. Inl TypeError)
     [''sample_id'' \<mapsto> NullableCol [Some 7, None, Some 3]] ''sample_id''
     = Inr [''sample_id'' \<mapsto> NullableCol [Some 7, None, Some 3]]"
proof -
  have m: "nanmax [Fin 7, NaN, Fin 3] = Fin 7"
    by (simp add: nanmax_def)
  have "astype_float [Fin 7, NaN, Fin 3] = Inr [Some 7, None, Some 3]"
    by (simp add: astype_float_def m)
  then have a: "to_intlike (\<lambda>cells. Inr (ObjectCol cells)) (\<lambda>cells. Inl TypeError) mixed_ids
      ''sample_id'' = Inr [''sample_id'' \<mapsto> NullableCol [Some 7, None, Some 3]]"
    by (simp add: to_intlike_def mixed_ids_def to_numeric_coerce_def astype_Int64_def)
  with to_intlike_idempotent [where obj_num = "\<lambda>cells. Inr (ObjectCol cells)"
      and obj_cast = "\<lambda>cells. Inl TypeError" and df = mixed_ids and col = "''sample_id''"]
  show ?thesis by simp
qed

end
